theory Spec2Isabelle
  imports Complex_Main
begin

section \<open>Python strings\<close>

text \<open>
  Texts are ASCII strings: one \<^typ>\<open>char\<close> per character. The string methods below are
  Python's \<^verbatim>\<open>str.isdigit\<close>, \<^verbatim>\<open>str.lower\<close>, \<^verbatim>\<open>str.strip\<close>, the operator \<^verbatim>\<open>in\<close> on strings,
  \<^verbatim>\<open>re.findall(r"\d+", t)\<close> and \<^verbatim>\<open>str(int)\<close>, restricted to that alphabet.
\<close>

definition is_digit_char :: "char \<Rightarrow> bool" where
  "is_digit_char c = (c \<in> set ''0123456789'')"

definition isdigit :: "string \<Rightarrow> bool" where
  "isdigit s = (s \<noteq> [] \<and> list_all is_digit_char s)"

definition lower_char :: "char \<Rightarrow> char" where
  "lower_char c =
     (case map_of (zip ''ABCDEFGHIJKLMNOPQRSTUVWXYZ'' ''abcdefghijklmnopqrstuvwxyz'') c of
        Some l \<Rightarrow> l
      | None \<Rightarrow> c)"

definition lower :: "string \<Rightarrow> string" where
  "lower s = map lower_char s"

definition is_space_char :: "char \<Rightarrow> bool" where
  "is_space_char c =
     (c \<in> set [CHR '' '', CHR 0x09, CHR 0x0A, CHR 0x0B, CHR 0x0C, CHR 0x0D,
               CHR 0x1C, CHR 0x1D, CHR 0x1E, CHR 0x1F])"

definition strip :: "string \<Rightarrow> string" where
  "strip s = rev (dropWhile is_space_char (rev (dropWhile is_space_char s)))"

text \<open>\<^verbatim>\<open>x in t\<close>: \<open>x\<close> occurs in \<open>t\<close> as a contiguous substring.\<close>

fun contains :: "string \<Rightarrow> string \<Rightarrow> bool" where
  "contains [] x = (x = [])"
| "contains (c # cs) x = (take (length x) (c # cs) = x \<or> contains cs x)"

text \<open>\<^verbatim>\<open>any(x in t for x in keywords)\<close>.\<close>

definition any_in :: "string list \<Rightarrow> string \<Rightarrow> bool" where
  "any_in keywords t = list_ex (contains t) keywords"

text \<open>
  \<^verbatim>\<open>re.findall(r"\d+", t)\<close>: the maximal runs of digits of \<open>t\<close>, from left to right.
\<close>

function findall_digits :: "string \<Rightarrow> string list" where
  "findall_digits [] = []"
| "findall_digits (c # cs) =
     (if is_digit_char c
      then (c # takeWhile is_digit_char cs) # findall_digits (dropWhile is_digit_char cs)
      else findall_digits cs)"
  by pat_completeness auto
termination
  by (relation "measure length") (auto simp: length_dropWhile_le less_Suc_eq_le)

definition digit_of :: "nat \<Rightarrow> char" where
  "digit_of n = ''0123456789'' ! (n mod 10)"

fun str_nat :: "nat \<Rightarrow> string" where
  "str_nat n = (if n < 10 then [digit_of n] else str_nat (n div 10) @ [digit_of n])"

declare str_nat.simps [simp del]

definition str_int :: "int \<Rightarrow> string" where
  "str_int i = (if i < 0 then ''-'' @ str_nat (nat (- i)) else str_nat (nat i))"

section \<open>Data\<close>

text \<open>
  The values a JSON body or a dictionary entry can hold. \<open>truthy\<close> is Python's truth
  value of such a value, as \<^verbatim>\<open>if pnr:\<close> and \<^verbatim>\<open>not transcript\<close> test it.
\<close>

datatype json =
    JNull
  | JBool bool
  | JNum int
  | JStr string
  | JList "json list"
  | JDict "(string \<times> json) list"

fun truthy :: "json \<Rightarrow> bool" where
  "truthy JNull = False"
| "truthy (JBool b) = b"
| "truthy (JNum n) = (n \<noteq> 0)"
| "truthy (JStr s) = (s \<noteq> [])"
| "truthy (JList xs) = (xs \<noteq> [])"
| "truthy (JDict kvs) = (kvs \<noteq> [])"

text \<open>\<^verbatim>\<open>d.get(k)\<close> on a dictionary held as an association list with distinct keys.\<close>

definition dict_get :: "(string \<times> json) list \<Rightarrow> string \<Rightarrow> json" where
  "dict_get kvs k = (case map_of kvs k of Some v \<Rightarrow> v | None \<Rightarrow> JNull)"

definition dict_has :: "(string \<times> json) list \<Rightarrow> string \<Rightarrow> bool" where
  "dict_has kvs k = (k \<in> set (map fst kvs))"

text \<open>\<^verbatim>\<open>a or b\<close>.\<close>

definition py_or :: "json \<Rightarrow> json \<Rightarrow> json" where
  "py_or a b = (if truthy a then a else b)"

datatype detail = Text string | CouldNotParse "string list"

datatype error =
    HTTPException nat detail
  | ValueError string
  | AttributeError string
  | KeyError string
  | TypeError string
  | RuntimeError string
  | NoneTarget

record nlu_result =
  intent :: string
  confidence :: real
  entities :: "(string \<times> string option) list"

record turn =
  turn_from :: string
  turn_text :: string
  turn_ts :: string

record session =
  call_id :: string
  caller :: string
  created_at :: string
  ended_at :: "string option"
  current_menu :: string
  menu_path :: "string list"
  conv_mode :: bool
  nlp_history :: "turn list"
  nlp_slots :: "(string \<times> string) list"
  last_nlu :: "nlu_result option"
  pnr_buffer :: string
  status :: string

text \<open>
  What the provider placeholders print: \<^verbatim>\<open>[TTS] to <id>: <text>\<close> and
  \<^verbatim>\<open>[CALL] Hanging up <id>\<close>.
\<close>

datatype provider_event = Spoke string string | HungUp string

text \<open>
  The process state: the two module-level registries \<^verbatim>\<open>active_calls\<close> and
  \<^verbatim>\<open>call_history\<close>, and the trace of the provider placeholders.
\<close>

record ivr_state =
  active_calls :: "string \<rightharpoonup> session"
  call_history :: "session list"
  provider_log :: "provider_event list"

section \<open>Legacy menu\<close>

record menu_option =
  opt_action :: string
  opt_target :: "string option"
  opt_message :: "string option"

record menu_node =
  prompt :: string
  options :: "(string \<times> menu_option) list"

definition MENU_STRUCTURE :: "(string \<times> menu_node) list" where
  "MENU_STRUCTURE =
    [(''main'',
       \<lparr>prompt = ''Welcome to Air India. Press 1 for Booking. Press 2 for Flight Status. Press 3 for Agent.'',
        options =
          [(''1'', \<lparr>opt_action = ''goto_menu'', opt_target = Some ''booking'',
                   opt_message = Some ''Going to Booking.''\<rparr>),
           (''2'', \<lparr>opt_action = ''goto_menu'', opt_target = Some ''flight_status'',
                   opt_message = Some ''Going to Flight Status.''\<rparr>),
           (''3'', \<lparr>opt_action = ''transfer_agent'', opt_target = None,
                   opt_message = Some ''Transferring to agent.''\<rparr>)]\<rparr>),
     (''booking'',
       \<lparr>prompt = ''Booking menu: Press 1 Domestic. Press 2 International. Press 0 Back.'',
        options =
          [(''1'', \<lparr>opt_action = ''start_booking_domestic'', opt_target = None,
                   opt_message = Some ''Domestic booking selected.''\<rparr>),
           (''2'', \<lparr>opt_action = ''start_booking_international'', opt_target = None,
                   opt_message = Some ''International booking selected.''\<rparr>),
           (''0'', \<lparr>opt_action = ''goto_menu'', opt_target = Some ''main'',
                   opt_message = Some ''Returning to main menu.''\<rparr>)]\<rparr>),
     (''flight_status'',
       \<lparr>prompt = ''Please speak or enter 6-digit PNR. Press 0 Back.'',
        options =
          [(''0'', \<lparr>opt_action = ''goto_menu'', opt_target = Some ''main'',
                   opt_message = Some ''Returning to main menu.''\<rparr>)]\<rparr>)]"

text \<open>\<^verbatim>\<open>MENU_STRUCTURE.get(menu, {}).get("options", {}).get(digit)\<close>.\<close>

definition menu_lookup :: "string \<Rightarrow> string \<Rightarrow> menu_option option" where
  "menu_lookup menu digit =
     (case map_of MENU_STRUCTURE menu of
        None \<Rightarrow> None
      | Some node \<Rightarrow> map_of (options node) digit)"

section \<open>Session store\<close>

text \<open>
  \<open>make_call_session\<close> takes the identifier that \<^verbatim>\<open>uuid.uuid4()\<close> produced and the
  text of \<^verbatim>\<open>datetime.utcnow().isoformat()\<close> as arguments.
\<close>

definition make_call_session :: "string \<Rightarrow> string \<Rightarrow> string \<Rightarrow> ivr_state \<Rightarrow> string \<times> ivr_state" where
  "make_call_session new_id now who st =
     (new_id,
      st\<lparr>active_calls := (active_calls st)(new_id \<mapsto>
           \<lparr>call_id = new_id, caller = who, created_at = now, ended_at = None,
            current_menu = ''main'', menu_path = [''main''], conv_mode = True,
            nlp_history = [], nlp_slots = [], last_nlu = None,
            pnr_buffer = [], status = ''active''\<rparr>)\<rparr>)"

text \<open>
  \<open>cleanup_call\<close>: \<^verbatim>\<open>active_calls.pop(call_id, None)\<close>, then the time stamp and the
  append to the history. A session dictionary is never empty, so \<^verbatim>\<open>if c:\<close> holds
  whenever the identifier was found.
\<close>

definition cleanup_call :: "string \<Rightarrow> string \<Rightarrow> ivr_state \<Rightarrow> session option \<times> ivr_state" where
  "cleanup_call now cid st =
     (case active_calls st cid of
        None \<Rightarrow> (None, st)
      | Some c \<Rightarrow>
          (let c' = c\<lparr>ended_at := Some now\<rparr>
           in (Some c',
               st\<lparr>active_calls := (active_calls st)(cid := None),
                  call_history := call_history st @ [c']\<rparr>)))"

section \<open>NLU\<close>

definition rule_based_nlu :: "string \<Rightarrow> nlu_result" where
  "rule_based_nlu text =
     (let t = strip (lower text) in
      if any_in [''book'', ''booking'', ''reserve'', ''ticket''] t
      then \<lparr>intent = ''booking_enquiry'', confidence = 0.9, entities = []\<rparr>
      else if any_in [''pnr'', ''status'', ''flight status'', ''where is my flight'', ''flight''] t
      then (let digits = findall_digits t;
                pnr = find (\<lambda>d. length d = 6) digits
            in \<lparr>intent = ''flight_status'', confidence = 0.85, entities = [(''pnr'', pnr)]\<rparr>)
      else if any_in [''agent'', ''human'', ''representative'', ''operator''] t
      then \<lparr>intent = ''agent_transfer'', confidence = 0.95, entities = []\<rparr>
      else if any_in [''hi'', ''hello'', ''hey'', ''good morning'', ''good evening''] t
      then \<lparr>intent = ''greeting'', confidence = 0.8, entities = []\<rparr>
      else if any_in [''bye'', ''goodbye'', ''thanks'', ''thank you''] t
      then \<lparr>intent = ''end_call'', confidence = 0.95, entities = []\<rparr>
      else \<lparr>intent = ''unknown'', confidence = 0.4, entities = []\<rparr>)"

definition LLM_ENABLED :: bool where
  "LLM_ENABLED = False"

definition llm_nlu_parse :: "string \<Rightarrow> nlu_result" where
  "llm_nlu_parse text = rule_based_nlu text"

text \<open>
  \<open>api_key_set\<close> is the truth value of the environment's \<^verbatim>\<open>LLM_API_KEY\<close>.
\<close>

definition nlu_parse :: "bool \<Rightarrow> string \<Rightarrow> nlu_result" where
  "nlu_parse api_key_set text =
     (if LLM_ENABLED \<and> api_key_set then llm_nlu_parse text else rule_based_nlu text)"

section \<open>Dialog manager\<close>

record action =
  action_name :: string
  target_menu :: "string option"
  response :: string

text \<open>
  The long dash of the booking response is written as its three UTF-8 bytes.
\<close>

definition INTENT_ACTION_MAP :: "(string \<times> action) list" where
  "INTENT_ACTION_MAP =
    [(''booking_enquiry'',
       \<lparr>action_name = ''goto_menu'', target_menu = Some ''booking'',
        response = ''Sure '' @ [CHR 0xE2, CHR 0x80, CHR 0x94]
                   @ '' I can help with your booking. Domestic or international?''\<rparr>),
     (''flight_status'',
       \<lparr>action_name = ''flight_status_check'', target_menu = Some ''flight_status'',
        response = ''Please tell me your 6-digit PNR.''\<rparr>),
     (''agent_transfer'',
       \<lparr>action_name = ''transfer_agent'', target_menu = None,
        response = ''I'' @ [CHR 0x27] @ ''ll transfer you to an agent now.''\<rparr>),
     (''greeting'',
       \<lparr>action_name = ''none'', target_menu = None,
        response = ''Hello! How can I help you today?''\<rparr>),
     (''end_call'',
       \<lparr>action_name = ''end_call'', target_menu = None,
        response = ''Thanks for calling. Goodbye!''\<rparr>),
     (''unknown'',
       \<lparr>action_name = ''reprompt'', target_menu = None,
        response = ''Sorry, I didn'' @ [CHR 0x27] @ ''t understand. Could you please repeat?''\<rparr>)]"

definition unknown_mapping :: action where
  "unknown_mapping =
     \<lparr>action_name = ''reprompt'', target_menu = None,
      response = ''Sorry, I didn'' @ [CHR 0x27] @ ''t understand. Could you please repeat?''\<rparr>"

text \<open>
  An entity value is \<open>None\<close> (Python's \<^verbatim>\<open>None\<close>) or a string.
  \<^verbatim>\<open>nlu_result.get("entities", {}).get("pnr")\<close> is \<open>entity_get (entities n) ''pnr''\<close>,
  and \<^verbatim>\<open>if pnr:\<close> holds for a string that is not empty.
\<close>

definition entity_get :: "(string \<times> string option) list \<Rightarrow> string \<Rightarrow> string option" where
  "entity_get es k = (case map_of es k of Some v \<Rightarrow> v | None \<Rightarrow> None)"

definition map_intent_to_action :: "nlu_result \<Rightarrow> session \<Rightarrow> action" where
  "map_intent_to_action n call_session =
     (let mapping = (case map_of INTENT_ACTION_MAP (intent n) of
                       Some m \<Rightarrow> m
                     | None \<Rightarrow> unknown_mapping)
      in if intent n = ''flight_status''
         then (case entity_get (entities n) ''pnr'' of
                 Some (c # cs) \<Rightarrow>
                   \<lparr>action_name = ''speak_and_hangup'', target_menu = None,
                    response = ''PNR '' @ (c # cs) @ '' is confirmed. Flight '' @ ''AI101''
                      @ '' from '' @ ''Mumbai-Delhi'' @ '' is '' @ ''Confirmed'' @ ''.''\<rparr>
               | _ \<Rightarrow>
                   \<lparr>action_name = ''ask_for_pnr'', target_menu = None,
                    response = response mapping\<rparr>)
         else if intent n = ''booking_enquiry''
         then \<lparr>action_name = ''goto_menu'', target_menu = Some ''booking'',
               response = response mapping\<rparr>
         else if intent n = ''agent_transfer''
         then \<lparr>action_name = ''transfer_agent'', target_menu = None, response = response mapping\<rparr>
         else if intent n = ''end_call''
         then \<lparr>action_name = ''speak_and_hangup'', target_menu = None, response = response mapping\<rparr>
         else if intent n = ''greeting''
         then \<lparr>action_name = ''speak'', target_menu = None, response = response mapping\<rparr>
         else \<lparr>action_name = ''reprompt'', target_menu = None, response = response mapping\<rparr>)"

section \<open>Provider placeholders\<close>

definition play_tts_to_call :: "string \<Rightarrow> string \<Rightarrow> ivr_state \<Rightarrow> ivr_state" where
  "play_tts_to_call cid text st = st\<lparr>provider_log := provider_log st @ [Spoke cid text]\<rparr>"

definition hangup_call :: "string \<Rightarrow> string \<Rightarrow> ivr_state \<Rightarrow> ivr_state" where
  "hangup_call now cid st =
     snd (cleanup_call now cid (st\<lparr>provider_log := provider_log st @ [HungUp cid]\<rparr>))"

text \<open>
  A coroutine handed to \<^verbatim>\<open>asyncio.create_task\<close> runs after the handler that
  scheduled it has returned: the handler returns the tasks, \<open>run_task\<close> runs one.
\<close>

datatype task = PlayTts string string | HangupCall string

fun run_task :: "string \<Rightarrow> task \<Rightarrow> ivr_state \<Rightarrow> ivr_state" where
  "run_task now (PlayTts cid text) st = play_tts_to_call cid text st"
| "run_task now (HangupCall cid) st = hangup_call now cid st"

definition run_tasks :: "string \<Rightarrow> task list \<Rightarrow> ivr_state \<Rightarrow> ivr_state" where
  "run_tasks now ts st = fold (run_task now) ts st"

section \<open>Conversational handler\<close>

record outcome =
  out_status :: string
  out_action :: string
  out_menu :: "string option"
  out_spoken :: string

text \<open>
  \<open>handle_transcribed_text\<close> with the two time stamps it reads: \<open>ts\<close> for the stored
  turn and \<open>ts_end\<close> for the hang-up. The session dictionary is changed in place, so
  every change is a change of the entry of \<open>active_calls\<close>. One call is one step: the
  model says what the handler does when no other request is served while it awaits
  the playback. A session that another request ends during that wait is the same
  dictionary object in \<^verbatim>\<open>call_history\<close>, and the writes the handler makes after the wait
  then land in that record; this interleaving is outside the model, and no statement
  below is about what such a wait allows. An action of
  \<open>map_intent_to_action\<close> named \<^verbatim>\<open>goto_menu\<close> always carries its target; the branch
  without one (where Python would store \<^verbatim>\<open>None\<close> as the menu) is \<open>NoneTarget\<close>.
\<close>

definition put_session :: "string \<Rightarrow> session \<Rightarrow> ivr_state \<Rightarrow> ivr_state" where
  "put_session cid s st = st\<lparr>active_calls := (active_calls st)(cid \<mapsto> s)\<rparr>"

definition handle_transcribed_text ::
  "bool \<Rightarrow> string \<Rightarrow> string \<Rightarrow> string \<Rightarrow> string \<Rightarrow> ivr_state \<Rightarrow> (error + outcome) \<times> ivr_state" where
  "handle_transcribed_text api_key_set ts ts_end cid transcript st =
     (case active_calls st cid of
        None \<Rightarrow> (Inl (ValueError ''Unknown call_id''), st)
      | Some session0 \<Rightarrow>
          (let session1 = session0\<lparr>nlp_history := nlp_history session0 @
                             [\<lparr>turn_from = ''user'', turn_text = transcript, turn_ts = ts\<rparr>]\<rparr>;
               nlu = nlu_parse api_key_set transcript;
               session2 = session1\<lparr>last_nlu := Some nlu\<rparr>;
               action = map_intent_to_action nlu session2;
               act = action_name action;
               resp_text = response action
           in if act = ''goto_menu''
              then (case target_menu action of
                      None \<Rightarrow> (Inl NoneTarget, put_session cid session2 st)
                    | Some target \<Rightarrow>
                        (let session3 = session2\<lparr>current_menu := target,
                                                menu_path := menu_path session2 @ [target]\<rparr>;
                             menu_prompt = (case map_of MENU_STRUCTURE target of
                                              None \<Rightarrow> resp_text
                                            | Some node \<Rightarrow> prompt node)
                         in (Inr \<lparr>out_status = ''ok'', out_action = ''goto_menu'',
                                  out_menu = Some target, out_spoken = menu_prompt\<rparr>,
                             play_tts_to_call cid menu_prompt (put_session cid session3 st))))
              else if act = ''ask_for_pnr''
              then (let session3 = session2\<lparr>current_menu := ''flight_status''\<rparr>
                    in (Inr \<lparr>out_status = ''ok'', out_action = ''ask_for_pnr'',
                             out_menu = None, out_spoken = resp_text\<rparr>,
                        play_tts_to_call cid resp_text (put_session cid session3 st)))
              else if act = ''speak''
              then (Inr \<lparr>out_status = ''ok'', out_action = ''speak'',
                         out_menu = None, out_spoken = resp_text\<rparr>,
                    play_tts_to_call cid resp_text (put_session cid session2 st))
              else if act = ''speak_and_hangup''
              then (Inr \<lparr>out_status = ''ok'', out_action = ''hangup'',
                         out_menu = None, out_spoken = resp_text\<rparr>,
                    hangup_call ts_end cid
                      (play_tts_to_call cid resp_text (put_session cid session2 st)))
              else if act = ''transfer_agent''
              then (Inr \<lparr>out_status = ''ok'', out_action = ''transfer'',
                         out_menu = None, out_spoken = resp_text\<rparr>,
                    put_session cid (session2\<lparr>status := ''transferring''\<rparr>)
                      (play_tts_to_call cid resp_text (put_session cid session2 st)))
              else if act = ''reprompt'' \<or> act = ''unknown''
              then (Inr \<lparr>out_status = ''ok'', out_action = ''reprompt'',
                         out_menu = None, out_spoken = resp_text\<rparr>,
                    play_tts_to_call cid resp_text (put_session cid session2 st))
              else (Inr \<lparr>out_status = ''fail'', out_action = ''transfer'',
                         out_menu = None, out_spoken = ''transferring''\<rparr>,
                    play_tts_to_call cid
                      (''Sorry, I couldn'' @ [CHR 0x27] @ ''t handle that. Transferring to agent.'')
                      (put_session cid session2 st))))"

section \<open>REST endpoints\<close>

definition start_call :: "string \<Rightarrow> string \<Rightarrow> string \<Rightarrow> ivr_state \<Rightarrow> (error + string \<times> string) \<times> ivr_state" where
  "start_call new_id now who st =
     (let (cid, st') = make_call_session new_id now who st
      in case map_of MENU_STRUCTURE ''main'' of
           None \<Rightarrow> (Inl (KeyError ''main''), st')
         | Some node \<Rightarrow> (Inr (cid, prompt node), st'))"

record dtmf_reply =
  reply_action :: "string option"
  reply_message :: string

text \<open>
  \<^verbatim>\<open>asyncio.create_task\<close> needs an event loop running in the calling thread: with one
  it schedules the coroutine, without one it raises \<^verbatim>\<open>RuntimeError\<close>, and what the
  handler wrote before the call stays written. \<open>dtmf_endpoint\<close> is a plain \<^verbatim>\<open>def\<close>
  route, which the framework runs in a worker thread where no loop is running: in
  the service \<open>loop_running\<close> is \<open>False\<close>; it is \<open>True\<close> when the function is called
  from a coroutine. \<open>dtmf_endpoint\<close> returns its reply (or the exception it raises),
  the coroutines it scheduled, in order, and the state it leaves.
\<close>

definition no_running_loop :: error where
  "no_running_loop = RuntimeError ''no running event loop''"

definition dtmf_endpoint ::
  "bool \<Rightarrow> string \<Rightarrow> string \<Rightarrow> ivr_state \<Rightarrow> (error + dtmf_reply) \<times> task list \<times> ivr_state" where
  "dtmf_endpoint loop_running cid digit st =
     (case active_calls st cid of
        None \<Rightarrow> (Inl (HTTPException 404 (Text ''Call not found'')), [], st)
      | Some call \<Rightarrow>
          (let menu = current_menu call
           in if menu = ''flight_status'' \<and> isdigit digit
              then (let call1 = call\<lparr>pnr_buffer := pnr_buffer call @ digit\<rparr>
                    in if length (pnr_buffer call1) = 6
                       then (let pnr = pnr_buffer call1;
                                 call2 = call1\<lparr>pnr_buffer := []\<rparr>;
                                 resp = ''PNR '' @ pnr @ '' is confirmed. Flight AI101 is on time.''
                             in if loop_running
                                then (Inr \<lparr>reply_action = Some ''pnr_lookup'', reply_message = resp\<rparr>,
                                      [PlayTts cid resp, HangupCall cid],
                                      put_session cid call2 st)
                                else (Inl no_running_loop, [], put_session cid call2 st))
                       else (let remaining = 6 - int (length (pnr_buffer call1))
                             in (Inr \<lparr>reply_action = None,
                                      reply_message = ''Received digit. '' @ str_int remaining
                                        @ '' digits to go.''\<rparr>,
                                 [],
                                 put_session cid call1 st)))
              else (case menu_lookup menu digit of
                      None \<Rightarrow>
                        (Inr \<lparr>reply_action = None,
                              reply_message = ''Invalid choice, please try again.''\<rparr>, [], st)
                    | Some opt \<Rightarrow>
                        if opt_action opt = ''goto_menu''
                        then (case opt_target opt of
                                None \<Rightarrow> (Inl (KeyError ''target''), [], st)
                              | Some target \<Rightarrow>
                                  (let call1 = call\<lparr>current_menu := target,
                                                    menu_path := menu_path call @ [target]\<rparr>
                                   in case map_of MENU_STRUCTURE target of
                                        None \<Rightarrow> (Inl (KeyError target), [], put_session cid call1 st)
                                      | Some node \<Rightarrow>
                                          if loop_running
                                          then (Inr \<lparr>reply_action = None,
                                                     reply_message = prompt node\<rparr>,
                                                [PlayTts cid (prompt node)],
                                                put_session cid call1 st)
                                          else (Inl no_running_loop, [], put_session cid call1 st)))
                        else if opt_action opt = ''transfer_agent''
                        then (if loop_running
                              then (Inr \<lparr>reply_action = None,
                                         reply_message = ''transfer initiated''\<rparr>,
                                    [PlayTts cid (case opt_message opt of
                                                    None \<Rightarrow> ''Transferring''
                                                  | Some m \<Rightarrow> m)],
                                    put_session cid (call\<lparr>status := ''transferring''\<rparr>) st)
                              else (Inl no_running_loop, [], st))
                        else if opt_action opt = ''end_call''
                        then (if loop_running
                              then (Inr \<lparr>reply_action = None, reply_message = ''call ended''\<rparr>,
                                    [PlayTts cid (case opt_message opt of
                                                    None \<Rightarrow> ''Goodbye''
                                                  | Some m \<Rightarrow> m),
                                     HangupCall cid],
                                    st)
                              else (Inl no_running_loop, [], st))
                        else (Inr \<lparr>reply_action = None, reply_message = ''Unhandled DTMF action''\<rparr>,
                              [], st))))"

definition simulate_speech ::
  "bool \<Rightarrow> string \<Rightarrow> string \<Rightarrow> string \<Rightarrow> string \<Rightarrow> ivr_state \<Rightarrow> (error + outcome) \<times> ivr_state" where
  "simulate_speech api_key_set ts ts_end cid transcript st =
     (if active_calls st cid = None
      then (Inl (HTTPException 404 (Text ''Call not active'')), st)
      else handle_transcribed_text api_key_set ts ts_end cid transcript st)"

text \<open>
  \<open>stt_callback\<close> on the decoded JSON body. Reading \<^verbatim>\<open>.get\<close> or \<^verbatim>\<open>.keys()\<close> of a value
  that is not a dictionary raises \<open>AttributeError\<close>; a list or dictionary as the key
  of \<^verbatim>\<open>call_id not in active_calls\<close> raises \<open>TypeError\<close>. On success the handler
  schedules \<^verbatim>\<open>handle_transcribed_text(call_id, transcript)\<close> and returns these two
  values.
\<close>

definition extract_fields :: "(string \<times> json) list \<Rightarrow> error + json \<times> json" where
  "extract_fields kvs =
     (case (if dict_has kvs ''callConnectionId'' \<and> dict_has kvs ''recognizeResult''
            then (case dict_get kvs ''recognizeResult'' of
                    JDict r \<Rightarrow> Inr (dict_get kvs ''callConnectionId'', dict_get r ''text'')
                  | _ \<Rightarrow> Inl (AttributeError ''get''))
            else Inr (JNull, JNull)) of
        Inl e \<Rightarrow> Inl e
      | Inr (call_id1, transcript1) \<Rightarrow>
          (let (call_id2, transcript2) =
                 (if \<not> truthy transcript1 \<and> dict_has kvs ''CallSid'' \<and> dict_has kvs ''SpeechResult''
                  then (dict_get kvs ''CallSid'', dict_get kvs ''SpeechResult'')
                  else (call_id1, transcript1));
               transcript3 =
                 (if \<not> truthy transcript2
                  then py_or (py_or (dict_get kvs ''transcript'') (dict_get kvs ''text''))
                             (dict_get kvs ''recognizedText'')
                  else transcript2)
           in Inr (call_id2, transcript3)))"

definition stt_callback :: "json \<Rightarrow> ivr_state \<Rightarrow> (error + json \<times> json) \<times> ivr_state" where
  "stt_callback payload st =
     (case payload of
        JDict kvs \<Rightarrow>
          (case extract_fields kvs of
             Inl e \<Rightarrow> (Inl e, st)
           | Inr (cid, transcript) \<Rightarrow>
               if \<not> truthy cid \<or> \<not> truthy transcript
               then (Inl (HTTPException 400 (CouldNotParse (map fst kvs))), st)
               else (case cid of
                       JStr c \<Rightarrow>
                         if active_calls st c = None
                         then (Inl (HTTPException 404 (Text ''Call session not found'')), st)
                         else (Inr (cid, transcript), st)
                     | JList _ \<Rightarrow> (Inl (TypeError ''unhashable type''), st)
                     | JDict _ \<Rightarrow> (Inl (TypeError ''unhashable type''), st)
                     | _ \<Rightarrow> (Inl (HTTPException 404 (Text ''Call session not found'')), st)))
      | _ \<Rightarrow> (Inl (AttributeError ''keys''), st))"

definition end_call :: "string \<Rightarrow> string \<Rightarrow> ivr_state \<Rightarrow> string \<times> ivr_state" where
  "end_call now cid st = (''call ended'', snd (cleanup_call now cid st))"

definition get_history :: "ivr_state \<Rightarrow> session list" where
  "get_history st = call_history st"

section \<open>Scenarios\<close>

definition empty_state :: ivr_state where
  "empty_state = \<lparr>active_calls = Map.empty, call_history = [], provider_log = []\<rparr>"

text \<open>
  A caller pressing keys one after the other: each key goes to \<open>dtmf_endpoint\<close>, and
  the coroutines it scheduled, if any, run before the next key arrives.
\<close>

fun press_digits ::
  "bool \<Rightarrow> string \<Rightarrow> string \<Rightarrow> string list \<Rightarrow> ivr_state
     \<Rightarrow> (error + dtmf_reply) list \<times> task list \<times> ivr_state" where
  "press_digits loop now cid [] st = ([], [], st)"
| "press_digits loop now cid (d # ds) st =
     (case dtmf_endpoint loop cid d st of
        (r, ts, st1) \<Rightarrow>
          (case press_digits loop now cid ds (run_tasks now ts st1) of
             (rs, tss, st2) \<Rightarrow> (r # rs, ts @ tss, st2)))"

definition digits_to_go :: "int \<Rightarrow> error + dtmf_reply" where
  "digits_to_go k =
     Inr \<lparr>reply_action = None,
          reply_message = ''Received digit. '' @ str_int k @ '' digits to go.''\<rparr>"

definition invalid_choice :: "error + dtmf_reply" where
  "invalid_choice =
     Inr \<lparr>reply_action = None, reply_message = ''Invalid choice, please try again.''\<rparr>"

text \<open>
  One started call; the same call after key 1 and after key 2 of the main menu, as the
  service handles them; and the same call after the caller has asked for an agent.
\<close>

definition st_started :: ivr_state where
  "st_started = snd (make_call_session ''c1'' ''t0'' ''+911234567890'' empty_state)"

definition st_booking :: ivr_state where
  "st_booking = snd (snd (dtmf_endpoint False ''c1'' ''1'' st_started))"

definition st_flight :: ivr_state where
  "st_flight = snd (snd (dtmf_endpoint False ''c1'' ''2'' st_started))"

definition st_transfer :: ivr_state where
  "st_transfer = snd (handle_transcribed_text False ''t1'' ''t2'' ''c1''
                       ''agent please'' st_started)"

definition new_session :: session where
  "new_session =
     \<lparr>call_id = ''c1'', caller = ''+911234567890'', created_at = ''t0'', ended_at = None,
      current_menu = ''main'', menu_path = [''main''], conv_mode = True,
      nlp_history = [], nlp_slots = [], last_nlu = None,
      pnr_buffer = [], status = ''active''\<rparr>"

definition st_transfer_booked :: ivr_state where
  "st_transfer_booked = snd (handle_transcribed_text False ''t3'' ''t4'' ''c1''
                               ''I want to book a ticket'' st_transfer)"

definition st_transfer_digit :: ivr_state where
  "st_transfer_digit =
     snd (snd (dtmf_endpoint False ''c1'' ''7''
       (snd (handle_transcribed_text False ''t3'' ''t4'' ''c1''
               ''I want to check my flight status'' st_transfer))))"

definition st_asked :: ivr_state where
  "st_asked = snd (handle_transcribed_text False ''t1'' ''t2'' ''c1''
                     ''I want to check my flight status'' st_started)"

text \<open>The state after a key has been handled and the coroutines it scheduled have run.\<close>

definition dtmf_state :: "bool \<Rightarrow> string \<Rightarrow> string \<Rightarrow> string \<Rightarrow> ivr_state \<Rightarrow> ivr_state" where
  "dtmf_state loop now cid digit st =
     run_tasks now (fst (snd (dtmf_endpoint loop cid digit st)))
       (snd (snd (dtmf_endpoint loop cid digit st)))"

text \<open>
  The store is well formed when every live session is filed under its own identifier
  and no record of the history has the identifier of a live session.
\<close>

definition store_inv :: "ivr_state \<Rightarrow> bool" where
  "store_inv st =
     ((\<forall>k s. active_calls st k = Some s \<longrightarrow> call_id s = k)
      \<and> (\<forall>h \<in> set (call_history st). active_calls st (call_id h) = None))"

text \<open>
  The states the service can be in: it starts empty, and each step is one endpoint
  call or one scheduled coroutine. A new call gets an identifier that no record of
  the history has.
\<close>

inductive reachable :: "ivr_state \<Rightarrow> bool" where
  r_init: "reachable empty_state"
| r_start: "reachable st \<Longrightarrow> new_id \<notin> call_id ` set (call_history st) \<Longrightarrow>
            reachable (snd (make_call_session new_id now who st))"
| r_dtmf: "reachable st \<Longrightarrow> reachable (snd (snd (dtmf_endpoint loop cid d st)))"
| r_task: "reachable st \<Longrightarrow> reachable (run_task now t st)"
| r_transcript: "reachable st \<Longrightarrow>
            reachable (snd (handle_transcribed_text b ts te cid tr st))"
| r_end: "reachable st \<Longrightarrow> reachable (snd (end_call now cid st))"

section \<open>The classifier as specified\<close>

text \<open>
  The words of the specification, for comparison with \<open>rule_based_nlu\<close>. A digit run of
  a text is a maximal block of digits: \<open>is_digit_run pre d post\<close> says that \<open>d\<close> is one in
  \<open>pre @ d @ post\<close>. The first run of exactly six digits is one with no such run in
  the text before it.
\<close>

definition is_digit_run :: "string \<Rightarrow> string \<Rightarrow> string \<Rightarrow> bool" where
  "is_digit_run pre d post =
     (d \<noteq> [] \<and> list_all is_digit_char d
      \<and> (pre = [] \<or> \<not> is_digit_char (last pre))
      \<and> (post = [] \<or> \<not> is_digit_char (hd post)))"

definition six_digit_run_in :: "string \<Rightarrow> bool" where
  "six_digit_run_in t =
     (\<exists>pre d post. t = pre @ d @ post \<and> is_digit_run pre d post \<and> length d = 6)"

definition first_six_digit_run :: "string \<Rightarrow> string \<Rightarrow> bool" where
  "first_six_digit_run t d =
     (\<exists>pre post. t = pre @ d @ post \<and> is_digit_run pre d post \<and> length d = 6
        \<and> \<not> six_digit_run_in pre)"

text \<open>
  The keyword groups in their order of precedence, the first group with a keyword in
  the text, and the results the specification allows for a text: the intent and
  confidence of the first matching group, for \<^verbatim>\<open>flight_status\<close> the \<open>pnr\<close> entity bound to
  the first run of exactly six digits, or to nothing when there is none, and
  \<^verbatim>\<open>unknown\<close> with confidence 0.4 and no entities when no group matches.
\<close>

definition keyword_groups :: "(string \<times> real \<times> string list) list" where
  "keyword_groups =
    [(''booking_enquiry'', 0.9, [''book'', ''booking'', ''reserve'', ''ticket'']),
     (''flight_status'', 0.85,
        [''pnr'', ''status'', ''flight status'', ''where is my flight'', ''flight'']),
     (''agent_transfer'', 0.95, [''agent'', ''human'', ''representative'', ''operator'']),
     (''greeting'', 0.8, [''hi'', ''hello'', ''hey'', ''good morning'', ''good evening'']),
     (''end_call'', 0.95, [''bye'', ''goodbye'', ''thanks'', ''thank you''])]"

definition first_matching_group :: "string \<Rightarrow> (string \<times> real \<times> string list) option" where
  "first_matching_group t = find (\<lambda>(name, conf, kws). any_in kws t) keyword_groups"

definition spec_classifies :: "string \<Rightarrow> nlu_result \<Rightarrow> bool" where
  "spec_classifies text r =
     (let t = strip (lower text) in
      case first_matching_group t of
        None \<Rightarrow> r = \<lparr>intent = ''unknown'', confidence = 0.4, entities = []\<rparr>
      | Some (name, conf, kws) \<Rightarrow>
          intent r = name \<and> confidence r = conf \<and>
          (if name = ''flight_status''
           then (\<exists>v. entities r = [(''pnr'', v)] \<and>
                   (case v of
                      None \<Rightarrow> \<not> six_digit_run_in t
                    | Some d \<Rightarrow> first_six_digit_run t d))
           else entities r = []))"

section \<open>Basic facts\<close>

lemma str_int_small:
  "str_int 1 = ''1''" "str_int 2 = ''2''" "str_int 3 = ''3''" "str_int 4 = ''4''" "str_int 5 = ''5''"
  by (simp_all add: str_int_def str_nat.simps digit_of_def)

lemma isdigit_single: "isdigit [c] = is_digit_char c"
  by (simp add: isdigit_def)

lemma put_session_get [simp]: "active_calls (put_session cid s st) cid = Some s"
  by (simp add: put_session_def)

lemma put_session_put [simp]: "put_session cid s (put_session cid s' st) = put_session cid s st"
  by (simp add: put_session_def)

lemma run_tasks_Nil [simp]: "run_tasks now [] st = st"
  by (simp add: run_tasks_def)

lemma st_started_eq:
  "st_started = \<lparr>active_calls = [''c1'' \<mapsto> new_session], call_history = [], provider_log = []\<rparr>"
  by (simp add: st_started_def make_call_session_def empty_state_def new_session_def)

lemma st_booking_eq:
  "st_booking =
     \<lparr>active_calls = [''c1'' \<mapsto> new_session\<lparr>current_menu := ''booking'',
                                              menu_path := [''main'', ''booking'']\<rparr>],
      call_history = [], provider_log = []\<rparr>"
  by (simp add: st_booking_def st_started_eq dtmf_endpoint_def new_session_def menu_lookup_def
      MENU_STRUCTURE_def put_session_def Let_def)

lemma st_flight_eq:
  "st_flight =
     \<lparr>active_calls = [''c1'' \<mapsto> new_session\<lparr>current_menu := ''flight_status'',
                                              menu_path := [''main'', ''flight_status'']\<rparr>],
      call_history = [], provider_log = []\<rparr>"
  by (simp add: st_flight_def st_started_eq dtmf_endpoint_def new_session_def menu_lookup_def
      MENU_STRUCTURE_def put_session_def Let_def)

lemma menu_lookup_flight_status:
  "menu_lookup ''flight_status'' digit = Some opt \<Longrightarrow> digit = ''0''"
  by (simp add: menu_lookup_def MENU_STRUCTURE_def split: if_splits)

lemma dtmf_collect:
  assumes "active_calls st cid = Some call" and "current_menu call = ''flight_status''"
    and "isdigit d" and "length (pnr_buffer call) + length d \<noteq> 6"
  shows "dtmf_endpoint loop cid d st =
           (digits_to_go (6 - int (length (pnr_buffer call) + length d)), [],
            put_session cid (call\<lparr>pnr_buffer := pnr_buffer call @ d\<rparr>) st)"
  using assms by (simp add: dtmf_endpoint_def digits_to_go_def Let_def)

lemma dtmf_complete:
  assumes "active_calls st cid = Some call" and "current_menu call = ''flight_status''"
    and "isdigit d" and "length (pnr_buffer call) + length d = 6"
  shows "dtmf_endpoint True cid d st =
           (Inr \<lparr>reply_action = Some ''pnr_lookup'',
                 reply_message = ''PNR '' @ pnr_buffer call @ d @ '' is confirmed. Flight AI101 is on time.''\<rparr>,
            [PlayTts cid (''PNR '' @ pnr_buffer call @ d @ '' is confirmed. Flight AI101 is on time.''),
             HangupCall cid],
            put_session cid (call\<lparr>pnr_buffer := []\<rparr>) st)"
  using assms by (simp add: dtmf_endpoint_def Let_def)

lemma dtmf_complete_no_loop:
  assumes "active_calls st cid = Some call" and "current_menu call = ''flight_status''"
    and "isdigit d" and "length (pnr_buffer call) + length d = 6"
  shows "dtmf_endpoint False cid d st =
           (Inl no_running_loop, [], put_session cid (call\<lparr>pnr_buffer := []\<rparr>) st)"
  using assms by (simp add: dtmf_endpoint_def Let_def)

lemma five_keys:
  assumes "active_calls st cid = Some call"
    and "current_menu call = ''flight_status''"
    and "pnr_buffer call = []"
  shows "dtmf_endpoint loop cid ''1'' st =
           (digits_to_go 5, [], put_session cid (call\<lparr>pnr_buffer := ''1''\<rparr>) st)"
    and "dtmf_endpoint loop cid ''2'' (put_session cid (call\<lparr>pnr_buffer := ''1''\<rparr>) st) =
           (digits_to_go 4, [], put_session cid (call\<lparr>pnr_buffer := ''12''\<rparr>) st)"
    and "dtmf_endpoint loop cid ''3'' (put_session cid (call\<lparr>pnr_buffer := ''12''\<rparr>) st) =
           (digits_to_go 3, [], put_session cid (call\<lparr>pnr_buffer := ''123''\<rparr>) st)"
    and "dtmf_endpoint loop cid ''4'' (put_session cid (call\<lparr>pnr_buffer := ''123''\<rparr>) st) =
           (digits_to_go 2, [], put_session cid (call\<lparr>pnr_buffer := ''1234''\<rparr>) st)"
    and "dtmf_endpoint loop cid ''5'' (put_session cid (call\<lparr>pnr_buffer := ''1234''\<rparr>) st) =
           (digits_to_go 1, [], put_session cid (call\<lparr>pnr_buffer := ''12345''\<rparr>) st)"
proof -
  have d: "is_digit_char CHR ''1''" "is_digit_char CHR ''2''" "is_digit_char CHR ''3''"
    "is_digit_char CHR ''4''" "is_digit_char CHR ''5''"
    by (simp_all add: is_digit_char_def)
  show "dtmf_endpoint loop cid ''1'' st =
      (digits_to_go 5, [], put_session cid (call\<lparr>pnr_buffer := ''1''\<rparr>) st)"
    using dtmf_collect [OF assms(1,2), of "''1''"] assms(3) d by (simp add: isdigit_single)
  show "dtmf_endpoint loop cid ''2'' (put_session cid (call\<lparr>pnr_buffer := ''1''\<rparr>) st) =
      (digits_to_go 4, [], put_session cid (call\<lparr>pnr_buffer := ''12''\<rparr>) st)"
    using dtmf_collect [of "put_session cid (call\<lparr>pnr_buffer := ''1''\<rparr>) st" cid
        "call\<lparr>pnr_buffer := ''1''\<rparr>" "''2''"] assms(2) d
    by (simp add: isdigit_single)
  show "dtmf_endpoint loop cid ''3'' (put_session cid (call\<lparr>pnr_buffer := ''12''\<rparr>) st) =
      (digits_to_go 3, [], put_session cid (call\<lparr>pnr_buffer := ''123''\<rparr>) st)"
    using dtmf_collect [of "put_session cid (call\<lparr>pnr_buffer := ''12''\<rparr>) st" cid
        "call\<lparr>pnr_buffer := ''12''\<rparr>" "''3''"] assms(2) d
    by (simp add: isdigit_single)
  show "dtmf_endpoint loop cid ''4'' (put_session cid (call\<lparr>pnr_buffer := ''123''\<rparr>) st) =
      (digits_to_go 2, [], put_session cid (call\<lparr>pnr_buffer := ''1234''\<rparr>) st)"
    using dtmf_collect [of "put_session cid (call\<lparr>pnr_buffer := ''123''\<rparr>) st" cid
        "call\<lparr>pnr_buffer := ''123''\<rparr>" "''4''"] assms(2) d
    by (simp add: isdigit_single)
  show "dtmf_endpoint loop cid ''5'' (put_session cid (call\<lparr>pnr_buffer := ''1234''\<rparr>) st) =
      (digits_to_go 1, [], put_session cid (call\<lparr>pnr_buffer := ''12345''\<rparr>) st)"
    using dtmf_collect [of "put_session cid (call\<lparr>pnr_buffer := ''1234''\<rparr>) st" cid
        "call\<lparr>pnr_buffer := ''1234''\<rparr>" "''5''"] assms(2) d
    by (simp add: isdigit_single)
qed

lemma goto_menu_has_target:
  "action_name (map_intent_to_action n s) = ''goto_menu'' \<Longrightarrow>
   target_menu (map_intent_to_action n s) = Some ''booking''"
  by (auto simp: map_intent_to_action_def Let_def split: if_splits option.splits list.splits)

lemma handle_transcribed_text_returns:
  assumes "active_calls st cid = Some s"
  shows "\<exists>out. fst (handle_transcribed_text b ts te cid tr st) = Inr out"
proof (cases "action_name (map_intent_to_action (nlu_parse b tr)
    (s\<lparr>nlp_history := nlp_history s @ [\<lparr>turn_from = ''user'', turn_text = tr, turn_ts = ts\<rparr>],
       last_nlu := Some (nlu_parse b tr)\<rparr>)) = ''goto_menu''")
  case True
  from goto_menu_has_target [OF True] True assms show ?thesis
    by (simp add: handle_transcribed_text_def Let_def)
next
  case False
  with assms show ?thesis
    by (simp add: handle_transcribed_text_def Let_def)
qed

section \<open>Unknown call identifiers\<close>

text \<open>
  Claim C7. \<open>dtmf_endpoint\<close> and \<open>handle_transcribed_text\<close> called with an identifier
  that is not a key of \<open>active_calls\<close> raise their not-found error (HTTP 404
  \<^verbatim>\<open>Call not found\<close>, respectively \<^verbatim>\<open>ValueError("Unknown call_id")\<close>), schedule nothing and
  leave the whole state as it was: every session, the live store, the history.
\<close>

theorem unknown_id_no_mutation:
  assumes "active_calls st cid = None"
  shows "dtmf_endpoint loop cid digit st = (Inl (HTTPException 404 (Text ''Call not found'')), [], st)
       \<and> handle_transcribed_text k ts ts_end cid transcript st =
           (Inl (ValueError ''Unknown call_id''), st)"
  using assms by (simp add: dtmf_endpoint_def handle_transcribed_text_def)

theorem unknown_id_no_mutation_witness:
  "active_calls st_started ''c2'' = None
   \<and> dtmf_endpoint False ''c2'' ''1'' st_started =
       (Inl (HTTPException 404 (Text ''Call not found'')), [], st_started)
   \<and> handle_transcribed_text False ''t1'' ''t2'' ''c2'' ''hello'' st_started =
       (Inl (ValueError ''Unknown call_id''), st_started)"
proof -
  have h: "active_calls st_started ''c2'' = None" by (simp add: st_started_eq)
  show ?thesis using h unknown_id_no_mutation [OF h] by simp
qed

section \<open>Menu navigation\<close>

text \<open>
  Claim C9. When a key reaches the menu lookup (the session is not collecting PNR
  digits with it) and the current menu has no option for it, \<open>dtmf_endpoint\<close> answers
  \<^verbatim>\<open>Invalid choice, please try again.\<close>, schedules nothing and returns the state it
  was given: \<open>current_menu\<close> and \<open>menu_path\<close> are untouched.
\<close>

theorem unmapped_digit_no_change:
  assumes "active_calls st cid = Some call"
    and "\<not> (current_menu call = ''flight_status'' \<and> isdigit digit)"
    and "menu_lookup (current_menu call) digit = None"
  shows "dtmf_endpoint loop cid digit st = (invalid_choice, [], st)"
  using assms by (auto simp add: dtmf_endpoint_def invalid_choice_def)

theorem unmapped_digit_no_change_witness:
  "map_option current_menu (active_calls st_booking ''c1'') = Some ''booking''
   \<and> map_option menu_path (active_calls st_booking ''c1'') = Some [''main'', ''booking'']
   \<and> menu_lookup ''booking'' ''9'' = None
   \<and> dtmf_endpoint False ''c1'' ''9'' st_booking = (invalid_choice, [], st_booking)"
proof -
  let ?call = "new_session\<lparr>current_menu := ''booking'', menu_path := [''main'', ''booking'']\<rparr>"
  have a: "active_calls st_booking ''c1'' = Some ?call"
    by (simp add: st_booking_eq)
  have b: "\<not> (current_menu ?call = ''flight_status'' \<and> isdigit ''9'')"
    by simp
  have c: "menu_lookup (current_menu ?call) ''9'' = None"
    by (simp add: menu_lookup_def MENU_STRUCTURE_def)
  show ?thesis using unmapped_digit_no_change [OF a b c] a c by simp
qed

text \<open>
  Claim C10. For a session whose \<open>current_menu\<close> is \<^verbatim>\<open>flight_status\<close>, the key 0 goes to
  the PNR buffer (which is emptied again when that key is the sixth digit), although
  the menu holds an option 0 that leads back to the main menu; and no key at all
  moves such a session out of \<^verbatim>\<open>flight_status\<close> or extends its \<open>menu_path\<close>.
\<close>

theorem flight_status_zero_is_buffered:
  assumes "active_calls st cid = Some call" and "current_menu call = ''flight_status''"
  shows "snd (snd (dtmf_endpoint loop cid ''0'' st)) =
           put_session cid
             (call\<lparr>pnr_buffer := (if length (pnr_buffer call) = 5 then []
                                    else pnr_buffer call @ ''0'')\<rparr>) st
       \<and> (\<exists>opt. menu_lookup ''flight_status'' ''0'' = Some opt \<and> opt_action opt = ''goto_menu''
             \<and> opt_target opt = Some ''main'')
       \<and> (\<forall>digit. \<exists>call'. active_calls (snd (snd (dtmf_endpoint loop cid digit st))) cid = Some call'
             \<and> current_menu call' = ''flight_status'' \<and> menu_path call' = menu_path call)"
proof (intro conjI allI)
  show "snd (snd (dtmf_endpoint loop cid ''0'' st)) =
           put_session cid
             (call\<lparr>pnr_buffer := (if length (pnr_buffer call) = 5 then []
                                    else pnr_buffer call @ ''0'')\<rparr>) st"
    using assms by (simp add: dtmf_endpoint_def isdigit_def is_digit_char_def Let_def)
  show "\<exists>opt. menu_lookup ''flight_status'' ''0'' = Some opt \<and> opt_action opt = ''goto_menu''
             \<and> opt_target opt = Some ''main''"
    by (simp add: menu_lookup_def MENU_STRUCTURE_def)
  fix digit
  show "\<exists>call'. active_calls (snd (snd (dtmf_endpoint loop cid digit st))) cid = Some call'
             \<and> current_menu call' = ''flight_status'' \<and> menu_path call' = menu_path call"
  proof (cases "isdigit digit")
    case True
    then show ?thesis using assms
      by (simp add: dtmf_endpoint_def Let_def put_session_def)
  next
    case False
    have "menu_lookup ''flight_status'' digit = None"
    proof (cases "menu_lookup ''flight_status'' digit")
      case (Some opt)
      then have "digit = ''0''" by (rule menu_lookup_flight_status)
      with False show ?thesis by (simp add: isdigit_def is_digit_char_def)
    qed simp
    with False assms show ?thesis
      by (simp add: dtmf_endpoint_def)
  qed
qed

theorem flight_status_zero_is_buffered_witness:
  "map_option current_menu (active_calls st_flight ''c1'') = Some ''flight_status''
   \<and> map_option pnr_buffer (active_calls (snd (snd (dtmf_endpoint False ''c1'' ''0'' st_flight))) ''c1'')
       = Some ''0''
   \<and> map_option current_menu (active_calls (snd (snd (dtmf_endpoint False ''c1'' ''0'' st_flight))) ''c1'')
       = Some ''flight_status''"
proof -
  let ?call = "new_session\<lparr>current_menu := ''flight_status'',
                            menu_path := [''main'', ''flight_status'']\<rparr>"
  have a: "active_calls st_flight ''c1'' = Some ?call"
    by (simp add: st_flight_eq)
  have b: "current_menu ?call = ''flight_status''"
    by simp
  have c: "pnr_buffer ?call = []"
    by (simp add: new_session_def)
  show ?thesis using flight_status_zero_is_buffered [OF a b] a c
    by (simp add: put_session_def)
qed

section \<open>Collecting the PNR by keys\<close>

text \<open>
  What the sixth key does when \<open>dtmf_endpoint\<close> is called from a coroutine, where
  \<^verbatim>\<open>create_task\<close> schedules: one playback and one hang-up, and the session moves to the
  history once they have run.
\<close>

lemma six_digits_with_running_loop:
  assumes "active_calls st cid = Some call"
    and "current_menu call = ''flight_status''"
    and "pnr_buffer call = []"
  shows "press_digits True now cid [''1'', ''2'', ''3'', ''4'', ''5'', ''6''] st =
           ([digits_to_go 5, digits_to_go 4, digits_to_go 3, digits_to_go 2, digits_to_go 1,
             Inr \<lparr>reply_action = Some ''pnr_lookup'',
                  reply_message = ''PNR 123456 is confirmed. Flight AI101 is on time.''\<rparr>],
            [PlayTts cid ''PNR 123456 is confirmed. Flight AI101 is on time.'', HangupCall cid],
            st\<lparr>active_calls := (active_calls st)(cid := None),
               call_history := call_history st @ [call\<lparr>pnr_buffer := [], ended_at := Some now\<rparr>],
               provider_log := provider_log st @
                 [Spoke cid ''PNR 123456 is confirmed. Flight AI101 is on time.'', HungUp cid]\<rparr>)"
proof -
  note k = five_keys [OF assms, of True]
  have d: "is_digit_char CHR ''6''"
    by (simp add: is_digit_char_def)
  have s6: "dtmf_endpoint True cid ''6'' (put_session cid (call\<lparr>pnr_buffer := ''12345''\<rparr>) st) =
      (Inr \<lparr>reply_action = Some ''pnr_lookup'',
            reply_message = ''PNR 123456 is confirmed. Flight AI101 is on time.''\<rparr>,
       [PlayTts cid ''PNR 123456 is confirmed. Flight AI101 is on time.'', HangupCall cid],
       put_session cid (call\<lparr>pnr_buffer := []\<rparr>) st)"
    using dtmf_complete [of "put_session cid (call\<lparr>pnr_buffer := ''12345''\<rparr>) st" cid
        "call\<lparr>pnr_buffer := ''12345''\<rparr>" "''6''"] assms(2) d
    by (simp add: isdigit_single)
  have fin: "run_tasks now
       [PlayTts cid ''PNR 123456 is confirmed. Flight AI101 is on time.'', HangupCall cid]
       (put_session cid (call\<lparr>pnr_buffer := []\<rparr>) st) =
     st\<lparr>active_calls := (active_calls st)(cid := None),
        call_history := call_history st @ [call\<lparr>pnr_buffer := [], ended_at := Some now\<rparr>],
        provider_log := provider_log st @
          [Spoke cid ''PNR 123456 is confirmed. Flight AI101 is on time.'', HungUp cid]\<rparr>"
    by (simp add: run_tasks_def play_tts_to_call_def hangup_call_def cleanup_call_def
        put_session_def Let_def)
  show ?thesis
    by (simp add: k s6 fin)
qed

text \<open>
  Claim C5 in the service, where \<open>dtmf_endpoint\<close> runs without an event loop. A
  session at \<^verbatim>\<open>flight_status\<close> with an empty buffer receives the keys 1 to 6. The first
  five are answered by \<^verbatim>\<open>Received digit. N digits to go.\<close> with N = 5, 4, 3, 2, 1 and
  fill the buffer. The sixth empties the buffer and then raises \<^verbatim>\<open>RuntimeError\<close> at
  \<^verbatim>\<open>create_task\<close>: nothing is scheduled, nothing is spoken, there is no hang-up, the
  session stays in the store and the history is as it was.
\<close>

theorem six_digits_raise_without_loop:
  assumes "active_calls st cid = Some call"
    and "current_menu call = ''flight_status''"
    and "pnr_buffer call = []"
  shows "press_digits False now cid [''1'', ''2'', ''3'', ''4'', ''5'', ''6''] st =
           ([digits_to_go 5, digits_to_go 4, digits_to_go 3, digits_to_go 2, digits_to_go 1,
             Inl no_running_loop],
            [],
            put_session cid (call\<lparr>pnr_buffer := []\<rparr>) st)
       \<and> active_calls (put_session cid (call\<lparr>pnr_buffer := []\<rparr>) st) cid
           = Some (call\<lparr>pnr_buffer := []\<rparr>)
       \<and> call_history (put_session cid (call\<lparr>pnr_buffer := []\<rparr>) st) = call_history st
       \<and> provider_log (put_session cid (call\<lparr>pnr_buffer := []\<rparr>) st) = provider_log st"
proof -
  note k = five_keys [OF assms, of False]
  have d: "is_digit_char CHR ''6''"
    by (simp add: is_digit_char_def)
  have s6: "dtmf_endpoint False cid ''6'' (put_session cid (call\<lparr>pnr_buffer := ''12345''\<rparr>) st) =
      (Inl no_running_loop, [], put_session cid (call\<lparr>pnr_buffer := []\<rparr>) st)"
    using dtmf_complete_no_loop [of "put_session cid (call\<lparr>pnr_buffer := ''12345''\<rparr>) st" cid
        "call\<lparr>pnr_buffer := ''12345''\<rparr>" "''6''"] assms(2) d
    by (simp add: isdigit_single)
  have run: "press_digits False now cid [''1'', ''2'', ''3'', ''4'', ''5'', ''6''] st =
      ([digits_to_go 5, digits_to_go 4, digits_to_go 3, digits_to_go 2, digits_to_go 1,
        Inl no_running_loop],
       [],
       put_session cid (call\<lparr>pnr_buffer := []\<rparr>) st)"
    by (simp add: k s6)
  have rest: "call_history (put_session cid (call\<lparr>pnr_buffer := []\<rparr>) st) = call_history st"
    "provider_log (put_session cid (call\<lparr>pnr_buffer := []\<rparr>) st) = provider_log st"
    by (simp_all add: put_session_def)
  show ?thesis
    using run rest by simp
qed

theorem six_digits_raise_without_loop_witness:
  "map_option current_menu (active_calls st_flight ''c1'') = Some ''flight_status''
   \<and> map_option pnr_buffer (active_calls st_flight ''c1'') = Some []
   \<and> fst (press_digits False ''t9'' ''c1'' [''1'', ''2'', ''3'', ''4'', ''5'', ''6''] st_flight) =
       [digits_to_go 5, digits_to_go 4, digits_to_go 3, digits_to_go 2, digits_to_go 1,
        Inl (RuntimeError ''no running event loop'')]
   \<and> fst (snd (press_digits False ''t9'' ''c1'' [''1'', ''2'', ''3'', ''4'', ''5'', ''6''] st_flight))
       = []
   \<and> active_calls (snd (snd (press_digits False ''t9'' ''c1''
         [''1'', ''2'', ''3'', ''4'', ''5'', ''6''] st_flight))) ''c1'' \<noteq> None
   \<and> call_history (snd (snd (press_digits False ''t9'' ''c1''
         [''1'', ''2'', ''3'', ''4'', ''5'', ''6''] st_flight))) = []
   \<and> provider_log (snd (snd (press_digits False ''t9'' ''c1''
         [''1'', ''2'', ''3'', ''4'', ''5'', ''6''] st_flight))) = []"
proof -
  let ?call = "new_session\<lparr>current_menu := ''flight_status'',
                            menu_path := [''main'', ''flight_status'']\<rparr>"
  have a: "active_calls st_flight ''c1'' = Some ?call"
    by (simp add: st_flight_eq)
  have b: "current_menu ?call = ''flight_status''"
    by simp
  have c: "pnr_buffer ?call = []"
    by (simp add: new_session_def)
  have h: "call_history st_flight = []" "provider_log st_flight = []"
    by (simp_all add: st_flight_eq)
  note main = six_digits_raise_without_loop [OF a b c, of "''t9''"]
  from main have m1:
    "press_digits False ''t9'' ''c1'' [''1'', ''2'', ''3'', ''4'', ''5'', ''6''] st_flight =
       ([digits_to_go 5, digits_to_go 4, digits_to_go 3, digits_to_go 2, digits_to_go 1,
         Inl no_running_loop],
        [],
        put_session ''c1'' (?call\<lparr>pnr_buffer := []\<rparr>) st_flight)"
    by (rule conjunct1)
  from main have m2:
    "call_history (put_session ''c1'' (?call\<lparr>pnr_buffer := []\<rparr>) st_flight) = call_history st_flight"
    "provider_log (put_session ''c1'' (?call\<lparr>pnr_buffer := []\<rparr>) st_flight) = provider_log st_flight"
    by blast+
  show ?thesis
    unfolding m1 using a c h m2 by (simp add: no_running_loop_def)
qed

section \<open>Session status\<close>

lemma nlu_flight_status_text:
  "rule_based_nlu ''I want to check my flight status'' =
     \<lparr>intent = ''flight_status'', confidence = 0.85, entities = [(''pnr'', None)]\<rparr>"
  by (simp add: rule_based_nlu_def lower_def lower_char_def strip_def is_space_char_def
      any_in_def is_digit_char_def Let_def)

lemma nlu_agent_text:
  "rule_based_nlu ''agent please'' =
     \<lparr>intent = ''agent_transfer'', confidence = 0.95, entities = []\<rparr>"
  by (simp add: rule_based_nlu_def lower_def lower_char_def strip_def is_space_char_def
      any_in_def is_digit_char_def Let_def)

lemma nlu_booking_text:
  "rule_based_nlu ''I want to book a ticket'' =
     \<lparr>intent = ''booking_enquiry'', confidence = 0.9, entities = []\<rparr>"
  by (simp add: rule_based_nlu_def lower_def lower_char_def strip_def is_space_char_def
      any_in_def is_digit_char_def Let_def)

lemma st_asked_eq:
  "map_option current_menu (active_calls st_asked ''c1'') = Some ''flight_status''"
  "map_option menu_path (active_calls st_asked ''c1'') = Some [''main'']"
  by (simp_all add: st_asked_def handle_transcribed_text_def st_started_eq nlu_parse_def
      LLM_ENABLED_def nlu_flight_status_text map_intent_to_action_def entity_get_def
      INTENT_ACTION_MAP_def Let_def play_tts_to_call_def put_session_def new_session_def)

text \<open>What \<open>handle_transcribed_text\<close> leaves of the session, by the intent of the transcript.\<close>

lemma transcript_agent_transfer:
  assumes "active_calls st cid = Some s" and "intent (nlu_parse b tr) = ''agent_transfer''"
  shows "active_calls (snd (handle_transcribed_text b ts te cid tr st)) cid =
           Some (s\<lparr>nlp_history := nlp_history s @
                     [\<lparr>turn_from = ''user'', turn_text = tr, turn_ts = ts\<rparr>],
                   last_nlu := Some (nlu_parse b tr),
                   status := ''transferring''\<rparr>)"
  using assms
  by (simp add: handle_transcribed_text_def map_intent_to_action_def Let_def
      play_tts_to_call_def put_session_def)

lemma transcript_booking:
  assumes "active_calls st cid = Some s" and "intent (nlu_parse b tr) = ''booking_enquiry''"
  shows "active_calls (snd (handle_transcribed_text b ts te cid tr st)) cid =
           Some (s\<lparr>nlp_history := nlp_history s @
                     [\<lparr>turn_from = ''user'', turn_text = tr, turn_ts = ts\<rparr>],
                   last_nlu := Some (nlu_parse b tr),
                   current_menu := ''booking'',
                   menu_path := menu_path s @ [''booking'']\<rparr>)"
  using assms
  by (simp add: handle_transcribed_text_def map_intent_to_action_def Let_def
      play_tts_to_call_def put_session_def MENU_STRUCTURE_def)

lemma transcript_ask_for_pnr:
  assumes "active_calls st cid = Some s" and "intent (nlu_parse b tr) = ''flight_status''"
    and "entity_get (entities (nlu_parse b tr)) ''pnr'' = None"
  shows "active_calls (snd (handle_transcribed_text b ts te cid tr st)) cid =
           Some (s\<lparr>nlp_history := nlp_history s @
                     [\<lparr>turn_from = ''user'', turn_text = tr, turn_ts = ts\<rparr>],
                   last_nlu := Some (nlu_parse b tr),
                   current_menu := ''flight_status''\<rparr>)"
  using assms
  by (simp add: handle_transcribed_text_def map_intent_to_action_def Let_def
      play_tts_to_call_def put_session_def)

lemma st_transfer_session:
  "active_calls st_transfer ''c1'' =
     Some (new_session\<lparr>nlp_history :=
                         [\<lparr>turn_from = ''user'', turn_text = ''agent please'', turn_ts = ''t1''\<rparr>],
                       last_nlu := Some \<lparr>intent = ''agent_transfer'', confidence = 0.95,
                                         entities = []\<rparr>,
                       status := ''transferring''\<rparr>)"
proof -
  have n: "nlu_parse False ''agent please'' =
      \<lparr>intent = ''agent_transfer'', confidence = 0.95, entities = []\<rparr>"
    by (simp add: nlu_parse_def LLM_ENABLED_def nlu_agent_text)
  have a: "active_calls st_started ''c1'' = Some new_session"
    by (simp add: st_started_eq)
  have i: "intent (nlu_parse False ''agent please'') = ''agent_transfer''"
    by (simp add: n)
  show ?thesis
    unfolding st_transfer_def
    using transcript_agent_transfer [OF a i, of "''t1''" "''t2''"]
    by (simp add: n new_session_def)
qed

lemma st_transfer_booked_session:
  "map_option status (active_calls st_transfer_booked ''c1'') = Some ''transferring''"
  "map_option current_menu (active_calls st_transfer_booked ''c1'') = Some ''booking''"
proof -
  have n: "nlu_parse False ''I want to book a ticket'' =
      \<lparr>intent = ''booking_enquiry'', confidence = 0.9, entities = []\<rparr>"
    by (simp add: nlu_parse_def LLM_ENABLED_def nlu_booking_text)
  have i: "intent (nlu_parse False ''I want to book a ticket'') = ''booking_enquiry''"
    by (simp add: n)
  note t = transcript_booking [OF st_transfer_session i, of "''t3''" "''t4''"]
  show "map_option status (active_calls st_transfer_booked ''c1'') = Some ''transferring''"
    unfolding st_transfer_booked_def t by simp
  show "map_option current_menu (active_calls st_transfer_booked ''c1'') = Some ''booking''"
    unfolding st_transfer_booked_def t by simp
qed

lemma st_transfer_digit_session:
  "map_option status (active_calls st_transfer_digit ''c1'') = Some ''transferring''"
  "map_option pnr_buffer (active_calls st_transfer_digit ''c1'') = Some ''7''"
proof -
  have n: "nlu_parse False ''I want to check my flight status'' =
      \<lparr>intent = ''flight_status'', confidence = 0.85, entities = [(''pnr'', None)]\<rparr>"
    by (simp add: nlu_parse_def LLM_ENABLED_def nlu_flight_status_text)
  have i: "intent (nlu_parse False ''I want to check my flight status'') = ''flight_status''"
    by (simp add: n)
  have e: "entity_get (entities (nlu_parse False ''I want to check my flight status'')) ''pnr''
      = None"
    by (simp add: n entity_get_def)
  note t = transcript_ask_for_pnr [OF st_transfer_session i e, of "''t3''" "''t4''"]
  have d: "isdigit ''7''"
    by (simp add: isdigit_def is_digit_char_def)
  have b: "pnr_buffer new_session = []"
    by (simp add: new_session_def)
  note k = dtmf_collect [OF t _ d, of False]
  show "map_option status (active_calls st_transfer_digit ''c1'') = Some ''transferring''"
    unfolding st_transfer_digit_def by (subst k) (simp_all add: b)
  show "map_option pnr_buffer (active_calls st_transfer_digit ''c1'') = Some ''7''"
    unfolding st_transfer_digit_def by (subst k) (simp_all add: b)
qed

lemma dtmf_status:
  assumes "active_calls st k = Some s"
    and "active_calls (snd (snd (dtmf_endpoint loop cid d st))) k = Some s'"
  shows "status s' = status s \<or> status s' = ''transferring''"
  using assms
  by (auto simp: dtmf_endpoint_def put_session_def Let_def
      split: option.splits if_splits)

lemma dtmf_history: "call_history (snd (snd (dtmf_endpoint loop cid d st))) = call_history st"
  by (auto simp: dtmf_endpoint_def put_session_def Let_def split: option.splits)

lemma run_task_active:
  "active_calls (run_task now t st) k = Some s' \<Longrightarrow> active_calls st k = Some s'"
  by (cases t)
    (auto simp: play_tts_to_call_def hangup_call_def cleanup_call_def Let_def
      split: option.splits if_splits)

lemma run_tasks_active:
  "active_calls (run_tasks now ts st) k = Some s' \<Longrightarrow> active_calls st k = Some s'"
  unfolding run_tasks_def
  by (induction ts arbitrary: st) (auto dest: run_task_active)

lemma transcript_status:
  assumes "active_calls st k = Some s"
    and "active_calls (snd (handle_transcribed_text b ts te cid tr st)) k = Some s'"
  shows "status s' = status s \<or> status s' = ''transferring''"
  using assms
  by (auto simp: handle_transcribed_text_def put_session_def Let_def play_tts_to_call_def
      hangup_call_def cleanup_call_def
      split: option.splits if_splits)

text \<open>
  Claim C1, as the code has it. A call of \<open>dtmf_endpoint\<close> (with or without an event
  loop, before and after the coroutines it scheduled) or of \<open>handle_transcribed_text\<close>
  leaves the \<open>status\<close> of a session that stays in the store as it was or sets it to
  \<^verbatim>\<open>transferring\<close>: the only move is from \<^verbatim>\<open>active\<close> to \<^verbatim>\<open>transferring\<close>, never back.
  Nothing is promised for \<open>current_menu\<close> and \<open>pnr_buffer\<close> of a transferring session.
\<close>

theorem status_moves_only_to_transferring:
  assumes "active_calls st k = Some s"
  shows "(\<forall>s'. active_calls (snd (snd (dtmf_endpoint loop cid digit st))) k = Some s'
            \<longrightarrow> status s' = status s \<or> status s' = ''transferring'')
       \<and> (\<forall>s'. active_calls (dtmf_state loop now cid digit st) k = Some s'
            \<longrightarrow> status s' = status s \<or> status s' = ''transferring'')
       \<and> (\<forall>s'. active_calls (snd (handle_transcribed_text b ts te cid tr st)) k = Some s'
            \<longrightarrow> status s' = status s \<or> status s' = ''transferring'')"
proof (intro conjI allI impI)
  fix s'
  assume "active_calls (snd (snd (dtmf_endpoint loop cid digit st))) k = Some s'"
  with assms show "status s' = status s \<or> status s' = ''transferring''"
    by (rule dtmf_status)
next
  fix s'
  assume "active_calls (dtmf_state loop now cid digit st) k = Some s'"
  then have "active_calls (snd (snd (dtmf_endpoint loop cid digit st))) k = Some s'"
    unfolding dtmf_state_def by (rule run_tasks_active)
  with assms show "status s' = status s \<or> status s' = ''transferring''"
    by (rule dtmf_status)
next
  fix s'
  assume "active_calls (snd (handle_transcribed_text b ts te cid tr st)) k = Some s'"
  with assms show "status s' = status s \<or> status s' = ''transferring''"
    by (rule transcript_status)
qed

theorem status_moves_only_to_transferring_witness:
  "map_option status (active_calls st_started ''c1'') = Some ''active''
   \<and> map_option status (active_calls st_transfer ''c1'') = Some ''transferring''
   \<and> map_option status (active_calls st_transfer_booked ''c1'') = Some ''transferring''
   \<and> map_option status (active_calls st_transfer_booked ''c1'') \<noteq> Some ''active''"
proof -
  let ?s = "new_session\<lparr>nlp_history :=
                         [\<lparr>turn_from = ''user'', turn_text = ''agent please'', turn_ts = ''t1''\<rparr>],
                       last_nlu := Some \<lparr>intent = ''agent_transfer'', confidence = 0.95,
                                         entities = []\<rparr>,
                       status := ''transferring''\<rparr>"
  have b: "active_calls st_started ''c1'' = Some new_session"
    by (simp add: st_started_eq)
  obtain s' where c: "active_calls st_transfer_booked ''c1'' = Some s'"
    using st_transfer_booked_session(2) by (cases "active_calls st_transfer_booked ''c1''") auto
  from status_moves_only_to_transferring [OF st_transfer_session, where b = False
      and ts = "''t3''" and te = "''t4''" and cid = "''c1''"
      and tr = "''I want to book a ticket''"] c
  have "status s' = status ?s \<or> status s' = ''transferring''"
    unfolding st_transfer_booked_def by blast
  then have d: "status s' = ''transferring''"
    by simp
  show ?thesis
    using b c d by (simp add: st_transfer_session new_session_def)
qed

text \<open>
  The claim as stated fails: the session of \<open>st_transfer\<close> is transferring, at the main
  menu and with an empty buffer; a later transcript still moves it to the booking
  menu, and after a flight status request a key still goes into its buffer.
\<close>

theorem transferring_session_still_driven:
  "map_option status (active_calls st_transfer ''c1'') = Some ''transferring''
   \<and> map_option current_menu (active_calls st_transfer ''c1'') = Some ''main''
   \<and> map_option pnr_buffer (active_calls st_transfer ''c1'') = Some []
   \<and> map_option status (active_calls st_transfer_booked ''c1'') = Some ''transferring''
   \<and> map_option current_menu (active_calls st_transfer_booked ''c1'') = Some ''booking''
   \<and> map_option status (active_calls st_transfer_digit ''c1'') = Some ''transferring''
   \<and> map_option pnr_buffer (active_calls st_transfer_digit ''c1'') = Some ''7''"
  by (simp add: st_transfer_session st_transfer_booked_session st_transfer_digit_session
      new_session_def)

section \<open>Menu path\<close>

lemma dtmf_menu_path:
  assumes "active_calls st k = Some s"
    and "active_calls (snd (snd (dtmf_endpoint loop cid d st))) k = Some s'"
  shows "\<exists>xs. menu_path s' = menu_path s @ xs"
  using assms
  by (auto simp: dtmf_endpoint_def put_session_def Let_def
      split: option.splits if_splits)

lemma transcript_menu_path:
  assumes "active_calls st k = Some s"
    and "active_calls (snd (handle_transcribed_text b ts te cid tr st)) k = Some s'"
  shows "\<exists>xs. menu_path s' = menu_path s @ xs"
  using assms
  by (auto simp: handle_transcribed_text_def put_session_def Let_def play_tts_to_call_def
      hangup_call_def cleanup_call_def
      split: option.splits if_splits)

text \<open>
  Claim C2 at the transcript \<^verbatim>\<open>I want to check my flight status\<close> on a fresh call:
  the \<^verbatim>\<open>ask_for_pnr\<close> branch sets \<open>current_menu\<close> to \<^verbatim>\<open>flight_status\<close> and appends
  nothing, so \<open>menu_path\<close> still ends with \<^verbatim>\<open>main\<close>.
\<close>

theorem ask_for_pnr_leaves_menu_path:
  "map_option current_menu (active_calls st_started ''c1'') = Some ''main''
   \<and> map_option menu_path (active_calls st_started ''c1'') = Some [''main'']
   \<and> map_option current_menu (active_calls st_asked ''c1'') = Some ''flight_status''
   \<and> map_option menu_path (active_calls st_asked ''c1'') = Some [''main'']
   \<and> last [''main''] \<noteq> ''flight_status''"
  by (simp add: st_asked_eq st_started_eq new_session_def)

section \<open>Termination of a session\<close>

lemma cleanup_call_inv:
  assumes "store_inv st"
  shows "store_inv (snd (cleanup_call now cid st))"
proof (cases "active_calls st cid")
  case None
  with assms show ?thesis by (simp add: cleanup_call_def)
next
  case (Some c)
  from assms Some have "call_id c = cid"
    by (simp add: store_inv_def)
  with assms Some show ?thesis
    by (auto simp: cleanup_call_def store_inv_def Let_def)
qed

lemma make_call_session_inv:
  assumes "store_inv st" and "new_id \<notin> call_id ` set (call_history st)"
  shows "store_inv (snd (make_call_session new_id now who st))"
  using assms by (auto simp: store_inv_def make_call_session_def)

lemma dtmf_endpoint_inv:
  assumes "store_inv st"
  shows "store_inv (snd (snd (dtmf_endpoint loop cid d st)))"
proof -
  have dom: "\<And>k. active_calls (snd (snd (dtmf_endpoint loop cid d st))) k = None \<longleftrightarrow>
      active_calls st k = None"
    by (auto simp: dtmf_endpoint_def put_session_def Let_def split: option.splits if_splits)
  have cid: "\<And>k s'. active_calls (snd (snd (dtmf_endpoint loop cid d st))) k = Some s' \<Longrightarrow>
      \<exists>s. active_calls st k = Some s \<and> call_id s' = call_id s"
    by (auto simp: dtmf_endpoint_def put_session_def Let_def split: option.splits if_splits)
  show ?thesis
    using assms cid unfolding store_inv_def dom dtmf_history by fastforce
qed

lemma run_task_inv: "store_inv st \<Longrightarrow> store_inv (run_task now t st)"
proof (cases t)
  case (PlayTts c x)
  assume "store_inv st"
  then show ?thesis by (simp add: PlayTts play_tts_to_call_def store_inv_def)
next
  case (HangupCall c)
  assume "store_inv st"
  then have "store_inv (st\<lparr>provider_log := provider_log st @ [HungUp c]\<rparr>)"
    by (simp add: store_inv_def)
  then show ?thesis
    unfolding HangupCall run_task.simps hangup_call_def by (rule cleanup_call_inv)
qed

lemma run_tasks_inv: "store_inv st \<Longrightarrow> store_inv (run_tasks now ts st)"
  unfolding run_tasks_def
  by (induction ts arbitrary: st) (auto intro: run_task_inv)

lemma put_session_inv:
  "store_inv st \<Longrightarrow> active_calls st cid = Some s \<Longrightarrow> call_id s' = call_id s \<Longrightarrow>
   store_inv (put_session cid s' st)"
  by (auto simp: store_inv_def put_session_def)

lemma play_tts_inv: "store_inv st \<Longrightarrow> store_inv (play_tts_to_call cid x st)"
  by (simp add: store_inv_def play_tts_to_call_def)

lemma hangup_call_inv: "store_inv st \<Longrightarrow> store_inv (hangup_call now cid st)"
  using run_task_inv [of st now "HangupCall cid"] by simp

lemma play_tts_active [simp]: "active_calls (play_tts_to_call cid x st) = active_calls st"
  by (simp add: play_tts_to_call_def)

lemma handle_transcribed_text_inv:
  assumes "store_inv st"
  shows "store_inv (snd (handle_transcribed_text b ts te cid tr st))"
proof (cases "active_calls st cid")
  case None
  with assms show ?thesis by (simp add: handle_transcribed_text_def)
next
  case (Some s)
  show ?thesis
    using assms Some
    by (auto simp: handle_transcribed_text_def Let_def
        intro!: put_session_inv play_tts_inv hangup_call_inv
        split: option.splits)
qed

lemma reachable_store_inv: "reachable st \<Longrightarrow> store_inv st"
proof (induction rule: reachable.induct)
  case r_init
  show ?case by (simp add: store_inv_def empty_state_def)
next
  case (r_start st new_id now who)
  then show ?case by (simp add: make_call_session_inv)
next
  case (r_dtmf st loop cid d)
  then show ?case by (simp add: dtmf_endpoint_inv)
next
  case (r_task st now t)
  then show ?case by (simp add: run_task_inv)
next
  case (r_transcript st b ts te cid tr)
  then show ?case by (simp add: handle_transcribed_text_inv)
next
  case (r_end st now cid)
  then show ?case by (simp add: end_call_def cleanup_call_inv)
qed

text \<open>
  Claim C3, as the code has it. \<open>cleanup_call\<close> on a live session stamps \<open>ended_at\<close>,
  leaves \<open>status\<close> as it was, removes the session from the store and appends the
  stamped record to the end of the history, in one step; it returns the record. A
  well-formed store stays well formed, and in every state the service can reach no
  record of the history has the identifier of a live session, before and after.
\<close>

theorem cleanup_call_moves_record:
  assumes "active_calls st cid = Some c"
  shows "cleanup_call now cid st =
           (Some (c\<lparr>ended_at := Some now\<rparr>),
            st\<lparr>active_calls := (active_calls st)(cid := None),
               call_history := call_history st @ [c\<lparr>ended_at := Some now\<rparr>]\<rparr>)
       \<and> status (c\<lparr>ended_at := Some now\<rparr>) = status c
       \<and> active_calls (snd (cleanup_call now cid st)) cid = None
       \<and> (store_inv st \<longrightarrow> store_inv (snd (cleanup_call now cid st)))
       \<and> (reachable st \<longrightarrow>
            (\<forall>h \<in> set (call_history (snd (cleanup_call now cid st))).
               active_calls (snd (cleanup_call now cid st)) (call_id h) = None))"
proof -
  have "reachable st \<longrightarrow>
      (\<forall>h \<in> set (call_history (snd (cleanup_call now cid st))).
         active_calls (snd (cleanup_call now cid st)) (call_id h) = None)"
  proof
    assume "reachable st"
    then have "store_inv (snd (cleanup_call now cid st))"
      by (intro cleanup_call_inv reachable_store_inv)
    then show "\<forall>h \<in> set (call_history (snd (cleanup_call now cid st))).
        active_calls (snd (cleanup_call now cid st)) (call_id h) = None"
      by (simp add: store_inv_def)
  qed
  moreover have "cleanup_call now cid st =
      (Some (c\<lparr>ended_at := Some now\<rparr>),
       st\<lparr>active_calls := (active_calls st)(cid := None),
          call_history := call_history st @ [c\<lparr>ended_at := Some now\<rparr>]\<rparr>)"
    using assms by (simp add: cleanup_call_def Let_def)
  moreover have "active_calls (snd (cleanup_call now cid st)) cid = None"
    using assms by (simp add: cleanup_call_def Let_def)
  moreover have "store_inv st \<longrightarrow> store_inv (snd (cleanup_call now cid st))"
    by (simp add: cleanup_call_inv)
  ultimately show ?thesis by simp
qed

theorem cleanup_call_moves_record_witness:
  "store_inv st_started
   \<and> reachable st_started
   \<and> active_calls st_started ''c1'' = Some new_session
   \<and> call_history (snd (cleanup_call ''t9'' ''c1'' st_started)) = [new_session\<lparr>ended_at := Some ''t9''\<rparr>]
   \<and> active_calls (snd (cleanup_call ''t9'' ''c1'' st_started)) ''c1'' = None
   \<and> store_inv (snd (cleanup_call ''t9'' ''c1'' st_started))
   \<and> active_calls (snd (cleanup_call ''t9'' ''c1'' st_started))
        (call_id (new_session\<lparr>ended_at := Some ''t9''\<rparr>)) = None"
proof -
  have a: "active_calls st_started ''c1'' = Some new_session"
    by (simp add: st_started_eq)
  have i: "store_inv st_started"
    by (simp add: store_inv_def st_started_eq new_session_def)
  have h: "call_history st_started = []"
    by (simp add: st_started_eq)
  have "''c1'' \<notin> call_id ` set (call_history empty_state)"
    by (simp add: empty_state_def)
  with r_init have r: "reachable st_started"
    unfolding st_started_def by (rule r_start)
  note m = cleanup_call_moves_record [OF a, of "''t9''"]
  from m have m1: "cleanup_call ''t9'' ''c1'' st_started =
      (Some (new_session\<lparr>ended_at := Some ''t9''\<rparr>),
       st_started\<lparr>active_calls := (active_calls st_started)(''c1'' := None),
          call_history := call_history st_started @ [new_session\<lparr>ended_at := Some ''t9''\<rparr>]\<rparr>)"
    by (rule conjunct1)
  from m i have m2: "store_inv (snd (cleanup_call ''t9'' ''c1'' st_started))"
    by blast
  have m3: "call_history (snd (cleanup_call ''t9'' ''c1'' st_started)) =
      [new_session\<lparr>ended_at := Some ''t9''\<rparr>]"
    unfolding m1 by (simp add: h)
  have m4: "active_calls (snd (cleanup_call ''t9'' ''c1'' st_started)) ''c1'' = None"
    unfolding m1 by simp
  from m r have "\<forall>h \<in> set (call_history (snd (cleanup_call ''t9'' ''c1'' st_started))).
      active_calls (snd (cleanup_call ''t9'' ''c1'' st_started)) (call_id h) = None"
    by blast
  then have m5: "active_calls (snd (cleanup_call ''t9'' ''c1'' st_started))
      (call_id (new_session\<lparr>ended_at := Some ''t9''\<rparr>)) = None"
    unfolding m3 by simp
  show ?thesis
    using a i r m2 m3 m4 m5 by blast
qed

text \<open>
  The claim as stated fails: the record of a terminated fresh call has the status
  \<^verbatim>\<open>active\<close>, not an ended one.
\<close>

theorem cleanup_call_keeps_status:
  "map status (call_history (snd (cleanup_call ''t9'' ''c1'' st_started))) = [''active'']
   \<and> map status (call_history (snd (cleanup_call ''t9'' ''c1'' st_started))) \<noteq> [''ended'']
   \<and> map_option status (fst (cleanup_call ''t9'' ''c1'' st_started)) = Some ''active''"
  by (simp add: cleanup_call_def st_started_eq new_session_def Let_def)

section \<open>Resolving the flight status intent\<close>

text \<open>
  Claim C4. For a classification with the intent \<^verbatim>\<open>flight_status\<close>: when the \<open>pnr\<close>
  entity holds a (non-empty) string, \<open>map_intent_to_action\<close> returns \<^verbatim>\<open>speak_and_hangup\<close>
  with the confirmation of that PNR; when it holds nothing, it returns \<^verbatim>\<open>ask_for_pnr\<close>,
  and \<open>handle_transcribed_text\<close> on a transcript so classified sets the session's
  \<open>current_menu\<close> to \<^verbatim>\<open>flight_status\<close>.
\<close>

theorem flight_status_resolution:
  assumes "intent n = ''flight_status''"
  shows "(\<forall>p. entity_get (entities n) ''pnr'' = Some p \<and> p \<noteq> [] \<longrightarrow>
            map_intent_to_action n s =
              \<lparr>action_name = ''speak_and_hangup'', target_menu = None,
               response = ''PNR '' @ p @ '' is confirmed. Flight AI101 from Mumbai-Delhi is Confirmed.''\<rparr>)
       \<and> (entity_get (entities n) ''pnr'' = None \<longrightarrow>
            map_intent_to_action n s =
              \<lparr>action_name = ''ask_for_pnr'', target_menu = None,
               response = ''Please tell me your 6-digit PNR.''\<rparr>)
       \<and> (\<forall>st cid s0 tr. active_calls st cid = Some s0 \<and> nlu_parse b tr = n
              \<and> entity_get (entities n) ''pnr'' = None \<longrightarrow>
            fst (handle_transcribed_text b ts te cid tr st) =
              Inr \<lparr>out_status = ''ok'', out_action = ''ask_for_pnr'', out_menu = None,
                   out_spoken = ''Please tell me your 6-digit PNR.''\<rparr>
            \<and> map_option current_menu
                (active_calls (snd (handle_transcribed_text b ts te cid tr st)) cid)
                = Some ''flight_status'')"
proof (intro conjI allI impI)
  fix p
  assume "entity_get (entities n) ''pnr'' = Some p \<and> p \<noteq> []"
  with assms show "map_intent_to_action n s =
      \<lparr>action_name = ''speak_and_hangup'', target_menu = None,
       response = ''PNR '' @ p @ '' is confirmed. Flight AI101 from Mumbai-Delhi is Confirmed.''\<rparr>"
    by (cases p) (simp_all add: map_intent_to_action_def)
next
  assume "entity_get (entities n) ''pnr'' = None"
  with assms show "map_intent_to_action n s =
      \<lparr>action_name = ''ask_for_pnr'', target_menu = None,
       response = ''Please tell me your 6-digit PNR.''\<rparr>"
    by (simp add: map_intent_to_action_def INTENT_ACTION_MAP_def)
next
  fix st :: ivr_state and cid s0 tr
  assume h: "active_calls st cid = Some s0 \<and> nlu_parse b tr = n
     \<and> entity_get (entities n) ''pnr'' = None"
  with assms have m: "\<And>x. map_intent_to_action n x =
      \<lparr>action_name = ''ask_for_pnr'', target_menu = None,
       response = ''Please tell me your 6-digit PNR.''\<rparr>"
    by (simp add: map_intent_to_action_def INTENT_ACTION_MAP_def)
  from h show "fst (handle_transcribed_text b ts te cid tr st) =
      Inr \<lparr>out_status = ''ok'', out_action = ''ask_for_pnr'', out_menu = None,
           out_spoken = ''Please tell me your 6-digit PNR.''\<rparr>"
    by (simp add: handle_transcribed_text_def m Let_def)
  from h show "map_option current_menu
      (active_calls (snd (handle_transcribed_text b ts te cid tr st)) cid) = Some ''flight_status''"
    by (simp add: handle_transcribed_text_def m Let_def play_tts_to_call_def put_session_def)
qed

theorem flight_status_resolution_witness:
  "intent (nlu_parse False ''I want to check my flight status'') = ''flight_status''
   \<and> map_intent_to_action
        \<lparr>intent = ''flight_status'', confidence = 0.85, entities = [(''pnr'', Some ''654321'')]\<rparr>
        new_session =
        \<lparr>action_name = ''speak_and_hangup'', target_menu = None,
         response = ''PNR 654321 is confirmed. Flight AI101 from Mumbai-Delhi is Confirmed.''\<rparr>
   \<and> map_option current_menu
        (active_calls (snd (handle_transcribed_text False ''t1'' ''t2'' ''c1''
           ''I want to check my flight status'' st_started)) ''c1'') = Some ''flight_status''"
proof -
  let ?n1 = "\<lparr>intent = ''flight_status'', confidence = 0.85,
              entities = [(''pnr'', Some ''654321'')]\<rparr>"
  let ?n2 = "nlu_parse False ''I want to check my flight status''"
  have n2: "?n2 = \<lparr>intent = ''flight_status'', confidence = 0.85, entities = [(''pnr'', None)]\<rparr>"
    by (simp add: nlu_parse_def LLM_ENABLED_def nlu_flight_status_text)
  have i1: "intent ?n1 = ''flight_status''"
    by simp
  have i2: "intent ?n2 = ''flight_status''"
    by (simp add: n2)
  have e1: "entity_get (entities ?n1) ''pnr'' = Some ''654321'' \<and> ''654321'' \<noteq> []"
    by (simp add: entity_get_def)
  have e2: "entity_get (entities ?n2) ''pnr'' = None"
    by (simp add: n2 entity_get_def)
  have a: "active_calls st_started ''c1'' = Some new_session"
    by (simp add: st_started_eq)
  from flight_status_resolution [OF i1, of new_session] e1
  have r1: "map_intent_to_action ?n1 new_session =
      \<lparr>action_name = ''speak_and_hangup'', target_menu = None,
       response = ''PNR '' @ ''654321'' @ '' is confirmed. Flight AI101 from Mumbai-Delhi is Confirmed.''\<rparr>"
    by blast
  from flight_status_resolution [OF i2, of new_session False "''t1''" "''t2''"] a e2
  have r2: "map_option current_menu
      (active_calls (snd (handle_transcribed_text False ''t1'' ''t2'' ''c1''
         ''I want to check my flight status'' st_started)) ''c1'') = Some ''flight_status''"
    by blast
  from r1 have r1': "map_intent_to_action ?n1 new_session =
      \<lparr>action_name = ''speak_and_hangup'', target_menu = None,
       response = ''PNR 654321 is confirmed. Flight AI101 from Mumbai-Delhi is Confirmed.''\<rparr>"
    by simp
  show ?thesis
    using i2 r1' r2 by blast
qed

section \<open>Provider webhook\<close>

lemma stt_callback_dict_rejected:
  assumes "extract_fields kvs = Inr (cid, transcript)"
    and "\<not> truthy cid \<or> \<not> truthy transcript"
  shows "stt_callback (JDict kvs) st = (Inl (HTTPException 400 (CouldNotParse (map fst kvs))), st)"
  using assms by (auto simp: stt_callback_def)

lemma stt_callback_state: "snd (stt_callback payload st) = st"
  by (auto simp: stt_callback_def split: json.splits sum.splits if_splits)


text \<open>
  Claim C8 at the JSON body \<^verbatim>\<open>[]\<close>: no call id and no transcript can be read from
  it, and building the diagnostic of the 400 answer calls \<^verbatim>\<open>payload.keys()\<close> on a list,
  which raises \<open>AttributeError\<close>; the state is unchanged.
\<close>

theorem stt_callback_list_payload:
  "stt_callback (JList []) st_started = (Inl (AttributeError ''keys''), st_started)"
  by (simp add: stt_callback_def)

theorem stt_callback_list_payload_witness:
  "fst (stt_callback (JList []) st_started) = Inl (AttributeError ''keys'')
   \<and> fst (stt_callback (JList []) st_started) \<noteq> Inl (HTTPException 400 (CouldNotParse []))
   \<and> snd (stt_callback (JList []) st_started) = st_started"
  using stt_callback_list_payload by simp


section \<open>Rule-based classifier\<close>

lemma last_dropWhile: "dropWhile P xs \<noteq> [] \<Longrightarrow> last (dropWhile P xs) = last xs"
  by (metis last_appendR takeWhile_dropWhile_id)

lemma findall_append:
  "pre = [] \<or> \<not> is_digit_char (last pre) \<Longrightarrow>
   findall_digits (pre @ rest) = findall_digits pre @ findall_digits rest"
proof (induction pre rule: findall_digits.induct)
  case 1
  show ?case by simp
next
  case (2 c cs)
  show ?case
  proof (cases "is_digit_char c")
    case True
    with "2.prems" have ne: "cs \<noteq> []" and nl: "\<not> is_digit_char (last cs)"
      by (auto split: if_splits)
    then have ex: "last cs \<in> set cs" by simp
    have tw: "takeWhile is_digit_char (cs @ rest) = takeWhile is_digit_char cs"
      using ex nl by (rule takeWhile_append1)
    have dw: "dropWhile is_digit_char (cs @ rest) = dropWhile is_digit_char cs @ rest"
      using ex nl by (rule dropWhile_append1)
    have "dropWhile is_digit_char cs = [] \<or> \<not> is_digit_char (last (dropWhile is_digit_char cs))"
      using nl by (cases "dropWhile is_digit_char cs = []") (simp_all add: last_dropWhile)
    with "2.IH"(1) True
    have "findall_digits (dropWhile is_digit_char cs @ rest) =
          findall_digits (dropWhile is_digit_char cs) @ findall_digits rest"
      by blast
    with True show ?thesis by (simp add: tw dw)
  next
    case False
    from "2.prems" have "cs = [] \<or> \<not> is_digit_char (last cs)"
      by (auto split: if_splits)
    with "2.IH"(2) False show ?thesis by simp
  qed
qed

lemma findall_run:
  assumes "d \<noteq> []" and "list_all is_digit_char d"
    and "post = [] \<or> \<not> is_digit_char (hd post)"
  shows "findall_digits (d @ post) = d # findall_digits post"
proof -
  obtain c ds where d: "d = c # ds" using assms(1) by (cases d) auto
  from assms(2) d have c: "is_digit_char c" and ds: "\<forall>x \<in> set ds. is_digit_char x"
    by (auto simp: list_all_iff)
  have t0: "takeWhile is_digit_char post = []" and d0: "dropWhile is_digit_char post = post"
    using assms(3) by (cases post; auto)+
  have tw: "takeWhile is_digit_char (ds @ post) = ds"
    using ds by (simp add: takeWhile_append2 t0)
  have dw: "dropWhile is_digit_char (ds @ post) = post"
    using ds by (simp add: dropWhile_append2 d0)
  show ?thesis using c by (simp add: d tw dw)
qed

lemma findall_decompose:
  assumes "is_digit_run pre d post"
  shows "findall_digits (pre @ d @ post) = findall_digits pre @ d # findall_digits post"
  using assms by (simp add: is_digit_run_def findall_append findall_run)

lemma findall_complete:
  "findall_digits t = rs1 @ d # rs2 \<Longrightarrow>
   \<exists>pre post. t = pre @ d @ post \<and> is_digit_run pre d post
      \<and> findall_digits pre = rs1 \<and> findall_digits post = rs2"
proof (induction t arbitrary: rs1 rule: findall_digits.induct)
  case 1
  then show ?case by simp
next
  case (2 c cs)
  let ?tk = "takeWhile is_digit_char cs"
  let ?dr = "dropWhile is_digit_char cs"
  have hd_dr: "?dr = [] \<or> \<not> is_digit_char (hd ?dr)"
    using hd_dropWhile [of is_digit_char cs] by blast
  show ?case
  proof (cases "is_digit_char c")
    case True
    then have fa: "findall_digits (c # cs) = (c # ?tk) # findall_digits ?dr"
      by simp
    have run_all: "list_all is_digit_char (c # ?tk)"
      using True by (auto simp: list_all_iff dest: set_takeWhileD)
    show ?thesis
    proof (cases rs1)
      case Nil
      with "2.prems" fa have d: "d = c # ?tk" and r: "rs2 = findall_digits ?dr"
        by auto
      have "c # cs = [] @ d @ ?dr" by (simp add: d)
      moreover have "is_digit_run [] d ?dr"
        using run_all hd_dr by (simp add: is_digit_run_def d)
      ultimately show ?thesis using Nil r by (intro exI [of _ "[]"] exI [of _ ?dr]) simp
    next
      case (Cons r rs1')
      with "2.prems" fa have r: "r = c # ?tk" and rest: "findall_digits ?dr = rs1' @ d # rs2"
        by auto
      from "2.IH"(1) [OF True rest] obtain pre' post where
        dr: "?dr = pre' @ d @ post" and run: "is_digit_run pre' d post"
        and p1: "findall_digits pre' = rs1'" and p2: "findall_digits post = rs2"
        by blast
      have pre'_ne: "pre' \<noteq> []"
      proof
        assume "pre' = []"
        with dr run have "?dr \<noteq> []" and "is_digit_char (hd ?dr)"
          by (auto simp: is_digit_run_def list_all_iff neq_Nil_conv)
        with hd_dr show False by blast
      qed
      with dr have hd_pre: "\<not> is_digit_char (hd pre')"
        using hd_dr by (cases pre') auto
      have t: "c # cs = ((c # ?tk) @ pre') @ d @ post"
        using dr by (metis append_Cons append_assoc takeWhile_dropWhile_id)
      have run': "is_digit_run ((c # ?tk) @ pre') d post"
        using run pre'_ne by (auto simp: is_digit_run_def)
      have "findall_digits ((c # ?tk) @ pre') = (c # ?tk) # findall_digits pre'"
        using run_all hd_pre by (intro findall_run) auto
      with p1 Cons r have "findall_digits ((c # ?tk) @ pre') = rs1"
        by simp
      with t run' p2 show ?thesis by blast
    qed
  next
    case False
    with "2.prems" have "findall_digits cs = rs1 @ d # rs2" by simp
    from "2.IH"(2) [OF False this] obtain pre' post where
      cs: "cs = pre' @ d @ post" and run: "is_digit_run pre' d post"
      and p1: "findall_digits pre' = rs1" and p2: "findall_digits post = rs2"
      by blast
    have "c # cs = (c # pre') @ d @ post" using cs by simp
    moreover have "is_digit_run (c # pre') d post"
      using run False by (auto simp: is_digit_run_def)
    moreover have "findall_digits (c # pre') = rs1" using p1 False by simp
    ultimately show ?thesis using p2 by blast
  qed
qed

lemma six_digit_run_in_iff:
  "six_digit_run_in t \<longleftrightarrow> (\<exists>d \<in> set (findall_digits t). length d = 6)"
proof
  assume "six_digit_run_in t"
  then obtain pre d post where "t = pre @ d @ post" "is_digit_run pre d post" "length d = 6"
    unfolding six_digit_run_in_def by blast
  then show "\<exists>d \<in> set (findall_digits t). length d = 6"
    by (auto simp: findall_decompose)
next
  assume "\<exists>d \<in> set (findall_digits t). length d = 6"
  then obtain d where "d \<in> set (findall_digits t)" and l: "length d = 6" by blast
  then obtain rs1 rs2 where "findall_digits t = rs1 @ d # rs2"
    by (auto dest: split_list)
  from findall_complete [OF this] l show "six_digit_run_in t"
    unfolding six_digit_run_in_def by blast
qed

lemma find_Some_split:
  "find P xs = Some x \<longleftrightarrow> (\<exists>ys zs. xs = ys @ x # zs \<and> P x \<and> (\<forall>y \<in> set ys. \<not> P y))"
proof (induction xs)
  case Nil
  show ?case by simp
next
  case (Cons a xs)
  show ?case
  proof (cases "P a")
    case True
    have "(\<exists>ys zs. a # xs = ys @ x # zs \<and> P x \<and> (\<forall>y \<in> set ys. \<not> P y)) \<longleftrightarrow> a = x"
    proof
      assume "\<exists>ys zs. a # xs = ys @ x # zs \<and> P x \<and> (\<forall>y \<in> set ys. \<not> P y)"
      then obtain ys zs where e: "a # xs = ys @ x # zs" and n: "\<forall>y \<in> set ys. \<not> P y" by blast
      show "a = x"
      proof (cases ys)
        case Nil with e show ?thesis by simp
      next
        case (Cons y ys') with e n True show ?thesis by auto
      qed
    next
      assume "a = x"
      with True show "\<exists>ys zs. a # xs = ys @ x # zs \<and> P x \<and> (\<forall>y \<in> set ys. \<not> P y)"
        by (intro exI [of _ "[]"] exI [of _ xs]) simp
    qed
    with True show ?thesis by simp
  next
    case False
    have "(\<exists>ys zs. a # xs = ys @ x # zs \<and> P x \<and> (\<forall>y \<in> set ys. \<not> P y)) \<longleftrightarrow>
          (\<exists>ys zs. xs = ys @ x # zs \<and> P x \<and> (\<forall>y \<in> set ys. \<not> P y))"
    proof
      assume "\<exists>ys zs. a # xs = ys @ x # zs \<and> P x \<and> (\<forall>y \<in> set ys. \<not> P y)"
      then obtain ys zs where e: "a # xs = ys @ x # zs" and px: "P x"
        and n: "\<forall>y \<in> set ys. \<not> P y" by blast
      show "\<exists>ys zs. xs = ys @ x # zs \<and> P x \<and> (\<forall>y \<in> set ys. \<not> P y)"
      proof (cases ys)
        case Nil with e px False show ?thesis by simp
      next
        case (Cons y ys') with e px n show ?thesis by auto
      qed
    next
      assume "\<exists>ys zs. xs = ys @ x # zs \<and> P x \<and> (\<forall>y \<in> set ys. \<not> P y)"
      then obtain ys zs where "xs = ys @ x # zs" "P x" "\<forall>y \<in> set ys. \<not> P y" by blast
      with False show "\<exists>ys zs. a # xs = ys @ x # zs \<and> P x \<and> (\<forall>y \<in> set ys. \<not> P y)"
        by (intro exI [of _ "a # ys"] exI [of _ zs]) simp
    qed
    with False Cons.IH show ?thesis by simp
  qed
qed

lemma first_six_digit_run_iff:
  "first_six_digit_run t d \<longleftrightarrow> find (\<lambda>d. length d = 6) (findall_digits t) = Some d"
proof
  assume "first_six_digit_run t d"
  then obtain pre post where t: "t = pre @ d @ post" and run: "is_digit_run pre d post"
    and l: "length d = 6" and n: "\<not> six_digit_run_in pre"
    unfolding first_six_digit_run_def by blast
  from run t have "findall_digits t = findall_digits pre @ d # findall_digits post"
    by (simp add: findall_decompose)
  moreover from n have "\<forall>y \<in> set (findall_digits pre). length y \<noteq> 6"
    by (simp add: six_digit_run_in_iff)
  ultimately show "find (\<lambda>d. length d = 6) (findall_digits t) = Some d"
    using l unfolding find_Some_split by blast
next
  assume "find (\<lambda>d. length d = 6) (findall_digits t) = Some d"
  then obtain ys zs where f: "findall_digits t = ys @ d # zs" and l: "length d = 6"
    and n: "\<forall>y \<in> set ys. length y \<noteq> 6"
    unfolding find_Some_split by blast
  from findall_complete [OF f] obtain pre post where
    "t = pre @ d @ post" "is_digit_run pre d post" "findall_digits pre = ys"
    by blast
  with l n show "first_six_digit_run t d"
    unfolding first_six_digit_run_def by (auto simp: six_digit_run_in_iff)
qed

lemma no_six_digit_run_iff:
  "\<not> six_digit_run_in t \<longleftrightarrow> find (\<lambda>d. length d = 6) (findall_digits t) = None"
  by (auto simp add: six_digit_run_in_iff find_None_iff)


lemma nlu_result_eq:
  "(intent r = i \<and> confidence r = c \<and> entities r = e) \<longleftrightarrow>
   r = \<lparr>intent = i, confidence = c, entities = e\<rparr>"
  by (cases r) auto

lemma pnr_entity_spec:
  "(\<exists>v. es = [(''pnr'', v)] \<and>
      (case v of None \<Rightarrow> \<not> six_digit_run_in t | Some d \<Rightarrow> first_six_digit_run t d)) \<longleftrightarrow>
   es = [(''pnr'', find (\<lambda>d. length d = 6) (findall_digits t))]"
proof
  assume "\<exists>v. es = [(''pnr'', v)] \<and>
      (case v of None \<Rightarrow> \<not> six_digit_run_in t | Some d \<Rightarrow> first_six_digit_run t d)"
  then obtain v where es: "es = [(''pnr'', v)]"
    and v: "case v of None \<Rightarrow> \<not> six_digit_run_in t | Some d \<Rightarrow> first_six_digit_run t d"
    by blast
  from v have "find (\<lambda>d. length d = 6) (findall_digits t) = v"
    by (cases v) (simp_all add: no_six_digit_run_iff first_six_digit_run_iff)
  with es show "es = [(''pnr'', find (\<lambda>d. length d = 6) (findall_digits t))]"
    by simp
next
  let ?v = "find (\<lambda>d. length d = 6) (findall_digits t)"
  assume es: "es = [(''pnr'', ?v)]"
  have "case ?v of None \<Rightarrow> \<not> six_digit_run_in t | Some d \<Rightarrow> first_six_digit_run t d"
    by (cases ?v) (simp_all add: no_six_digit_run_iff first_six_digit_run_iff)
  with es show "\<exists>v. es = [(''pnr'', v)] \<and>
      (case v of None \<Rightarrow> \<not> six_digit_run_in t | Some d \<Rightarrow> first_six_digit_run t d)"
    by blast
qed

lemma flight_status_result_eq:
  "(intent r = i \<and> confidence r = c \<and>
      (\<exists>v. entities r = [(''pnr'', v)] \<and>
         (case v of None \<Rightarrow> \<not> six_digit_run_in t | Some d \<Rightarrow> first_six_digit_run t d))) \<longleftrightarrow>
   r = \<lparr>intent = i, confidence = c,
        entities = [(''pnr'', find (\<lambda>d. length d = 6) (findall_digits t))]\<rparr>"
  unfolding pnr_entity_spec by (rule nlu_result_eq)

lemma nlu_precedence_text:
  "rule_based_nlu ''  Flight 12345 or 654321, Agent '' =
     \<lparr>intent = ''flight_status'', confidence = 0.85, entities = [(''pnr'', Some ''654321'')]\<rparr>"
  by (simp add: rule_based_nlu_def lower_def lower_char_def strip_def is_space_char_def
      any_in_def is_digit_char_def Let_def)

lemma nlu_unknown_text:
  "rule_based_nlu ''Good night'' = \<lparr>intent = ''unknown'', confidence = 0.4, entities = []\<rparr>"
  by (simp add: rule_based_nlu_def lower_def lower_char_def strip_def is_space_char_def
      any_in_def is_digit_char_def Let_def)

text \<open>
  Claim C6. \<open>rule_based_nlu\<close> returns exactly the result the specification allows:
  the text is lower-cased and trimmed, the groups booking, flight status, agent
  transfer, greeting, end of call are tried in this order and the first that matches
  decides; no match gives \<^verbatim>\<open>unknown\<close> with confidence 0.4 and no entities; for flight
  status the \<open>pnr\<close> entity is the first maximal run of exactly six digits, and holds
  nothing when the text has no such run.
\<close>

theorem rule_based_nlu_meets_spec:
  "spec_classifies text r \<longleftrightarrow> r = rule_based_nlu text"
  by (cases r)
    (simp add: spec_classifies_def rule_based_nlu_def first_matching_group_def
      keyword_groups_def Let_def pnr_entity_spec)

theorem rule_based_nlu_meets_spec_witness:
  "spec_classifies ''  Flight 12345 or 654321, Agent ''
     \<lparr>intent = ''flight_status'', confidence = 0.85, entities = [(''pnr'', Some ''654321'')]\<rparr>
   \<and> spec_classifies ''Good night'' \<lparr>intent = ''unknown'', confidence = 0.4, entities = []\<rparr>
   \<and> \<not> spec_classifies ''  Flight 12345 or 654321, Agent ''
     \<lparr>intent = ''agent_transfer'', confidence = 0.95, entities = []\<rparr>"
  using rule_based_nlu_meets_spec [of "''  Flight 12345 or 654321, Agent ''"
      "\<lparr>intent = ''flight_status'', confidence = 0.85, entities = [(''pnr'', Some ''654321'')]\<rparr>"]
    rule_based_nlu_meets_spec [of "''Good night''"
      "\<lparr>intent = ''unknown'', confidence = 0.4, entities = []\<rparr>"]
    rule_based_nlu_meets_spec [of "''  Flight 12345 or 654321, Agent ''"
      "\<lparr>intent = ''agent_transfer'', confidence = 0.95, entities = []\<rparr>"]
  by (simp add: nlu_precedence_text nlu_unknown_text)


end
